theory Spec2Isabelle
  imports Main "HOL-Library.Sublist" "HOL-Library.AList"
begin

section \<open>Python text\<close>

text \<open>
  A Python \<open>str\<close> is a sequence of Unicode code points, so text is a list of natural
  numbers here: the markdown of this tool is mostly Chinese, and \<open>str.strip\<close> removes
  code points such as U+3000 that do not fit a byte. \<open>lit\<close> writes an ASCII literal of
  the source as code points.
\<close>

type_synonym pystr = "nat list"

definition lit :: "string \<Rightarrow> pystr" where
  "lit s = map of_char s"

text \<open>The code points for which \<open>str.isspace\<close> holds: what \<open>str.strip()\<close> removes.\<close>

definition is_space :: "nat \<Rightarrow> bool" where
  "is_space c \<longleftrightarrow>
     (9 \<le> c \<and> c \<le> 13) \<or> (28 \<le> c \<and> c \<le> 32) \<or> c = 133 \<or> c = 160 \<or> c = 5760 \<or>
     (8192 \<le> c \<and> c \<le> 8202) \<or> c = 8232 \<or> c = 8233 \<or> c = 8239 \<or> c = 8287 \<or> c = 12288"

definition strip :: "pystr \<Rightarrow> pystr" where
  "strip s = rev (dropWhile is_space (rev (dropWhile is_space s)))"

text \<open>\<open>s.split(sep)\<close> for a separator of one code point; the result is never empty.\<close>

fun split_on :: "'a \<Rightarrow> 'a list \<Rightarrow> 'a list list" where
  "split_on sep [] = [[]]"
| "split_on sep (c # cs) =
     (if c = sep then [] # split_on sep cs
      else (case split_on sep cs of
              [] \<Rightarrow> [[c]]
            | w # ws \<Rightarrow> (c # w) # ws))"

text \<open>\<open>sep.join(xs)\<close>.\<close>

fun join :: "'a list \<Rightarrow> 'a list list \<Rightarrow> 'a list" where
  "join sep [] = []"
| "join sep [x] = x"
| "join sep (x # y # ys) = x @ sep @ join sep (y # ys)"

section \<open>The regular expressions of the parser\<close>

text \<open>
  Every pattern of the source has the shape \<open>O(.*?)C\<close>, where \<open>O\<close> and \<open>C\<close> are literals or
  alternatives of literals (\<open><(?:th|td)>\<close>). \<open>lazy_until\<close> is the lazy group followed by
  the closer, anchored: the shortest text after which a closer starts, with its length and
  the closer's; without \<open>re.DOTALL\<close> the dot refuses the line feed. \<open>match_here\<close> is the
  whole pattern anchored at the start of the text, trying the opening alternatives in
  order as the backtracking matcher does; it gives group 1 and the length of the match.
\<close>

fun lazy_until :: "bool \<Rightarrow> pystr list \<Rightarrow> pystr \<Rightarrow> (pystr \<times> nat) option" where
  "lazy_until dotall cls [] = (if [] \<in> set cls then Some ([], 0) else None)"
| "lazy_until dotall cls (c # cs) =
     (case find (\<lambda>cl. prefix cl (c # cs)) cls of
        Some cl \<Rightarrow> Some ([], length cl)
      | None \<Rightarrow>
          if \<not> dotall \<and> c = 10 then None
          else map_option (\<lambda>(g, n). (c # g, n)) (lazy_until dotall cls cs))"

fun match_here :: "bool \<Rightarrow> pystr list \<Rightarrow> pystr list \<Rightarrow> pystr \<Rightarrow> (pystr \<times> nat) option" where
  "match_here dotall [] cls s = None"
| "match_here dotall (opn # ops) cls s =
     (if prefix opn s then
        (case lazy_until dotall cls (drop (length opn) s) of
           Some (g, n) \<Rightarrow> Some (g, length opn + length g + n)
         | None \<Rightarrow> match_here dotall ops cls s)
      else match_here dotall ops cls s)"

text \<open>\<open>re.search\<close>: the match at the leftmost position that has one; its group 1.\<close>

fun re_search :: "bool \<Rightarrow> pystr list \<Rightarrow> pystr list \<Rightarrow> pystr \<Rightarrow> pystr option" where
  "re_search dotall ops cls [] = map_option fst (match_here dotall ops cls [])"
| "re_search dotall ops cls (c # cs) =
     (case match_here dotall ops cls (c # cs) of
        Some (g, n) \<Rightarrow> Some g
      | None \<Rightarrow> re_search dotall ops cls cs)"

text \<open>
  \<open>re.findall\<close>: the groups of the successive matches, left to right; after a match of
  length \<open>n\<close> the scan resumes at its end, which \<open>skip\<close> counts down to.
\<close>

fun findall_from :: "bool \<Rightarrow> pystr list \<Rightarrow> pystr list \<Rightarrow> nat \<Rightarrow> pystr \<Rightarrow> pystr list" where
  "findall_from dotall ops cls skip [] = []"
| "findall_from dotall ops cls skip (c # cs) =
     (if 0 < skip then findall_from dotall ops cls (skip - 1) cs
      else (case match_here dotall ops cls (c # cs) of
              Some (g, n) \<Rightarrow> g # findall_from dotall ops cls (n - 1) cs
            | None \<Rightarrow> findall_from dotall ops cls 0 cs))"

definition re_findall :: "bool \<Rightarrow> pystr list \<Rightarrow> pystr list \<Rightarrow> pystr \<Rightarrow> pystr list" where
  "re_findall dotall ops cls s = findall_from dotall ops cls 0 s"

section \<open>Exceptions\<close>

text \<open>
  Every exception the modelled code can raise. All of them are subclasses of Python's
  \<open>Exception\<close>, which is what the handlers of the source catch. \<open>OSError\<close> stands
  for its subclasses too (a missing file, a directory where a file is expected and the
  like).
\<close>

datatype exn =
    BadZipFile
  | ValueError pystr
  | TypeError pystr
  | KeyError pystr
  | IndexError
  | XMLSyntaxError
  | OSError
  | PackageNotFoundError
  | UnicodeEncodeError
  | ValidationError

section \<open>The document object model\<close>

text \<open>
  The docx library is a capability of the host: a document is the list of its body nodes
  (a paragraph with its style name and the text of its run, or a table), a table has a
  style, a number of grid columns and rows of cells, a cell holds paragraphs of runs and
  the children of its properties node. A new cell holds one empty paragraph; assigning
  \<open>cell.text\<close> replaces the content by one paragraph with one run. Formatting is a total
  operation of the capability; writing the text of a run and looking a style up by name
  are not.
\<close>

datatype alignment_t = CENTER

record run =
  run_text :: pystr
  run_bold :: bool
  run_size :: "nat option"

record docx_paragraph =
  alignment :: "alignment_t option"
  runs :: "run list"

record cell =
  paragraphs :: "docx_paragraph list"
  tcPr :: "pystr list"

record table =
  tbl_style :: "pystr option"
  tbl_grid :: nat
  tbl_rows :: "cell list list"

datatype node =
    Paragraph pystr pystr
  | TableNode table

datatype style_type = PARAGRAPH_STYLE | CHARACTER_STYLE | TABLE_STYLE | LIST_STYLE

type_synonym styles = "pystr \<Rightarrow> style_type option"

definition new_cell :: cell where
  "new_cell = \<lparr>paragraphs = [\<lparr>alignment = None, runs = []\<rparr>], tcPr = []\<rparr>"

text \<open>
  Writing the text of a run (\<open>run.text = t\<close>, \<open>p.add_run(t)\<close>, \<open>cell.text = t\<close>). The
  library walks through the text: a tab becomes a tab element, a line feed or a carriage
  return a break element, and the characters between them are buffered and flushed into
  a text element. The XML engine encodes each flushed piece as UTF-8, which raises
  \<open>UnicodeEncodeError\<close> for a surrogate, and then refuses it with \<open>ValueError\<close> when it
  holds a control character below U+0020, U+FFFE or U+FFFF. \<open>text_error\<close> gives the
  exception of the first piece that has one; \<open>run_text_of\<close> is the text read back from
  the run, where both kinds of break read as a line feed.
\<close>

definition msg_xml_compatible :: pystr where
  "msg_xml_compatible =
     lit ''All strings must be XML compatible: Unicode or ASCII, no NULL bytes or control characters''"

definition is_break :: "nat \<Rightarrow> bool" where
  "is_break c \<longleftrightarrow> c = 9 \<or> c = 10 \<or> c = 13"

definition is_surrogate :: "nat \<Rightarrow> bool" where
  "is_surrogate c \<longleftrightarrow> 55296 \<le> c \<and> c \<le> 57343"

definition is_xml_char :: "nat \<Rightarrow> bool" where
  "is_xml_char c \<longleftrightarrow> 32 \<le> c \<and> c \<noteq> 65534 \<and> c \<noteq> 65535"

definition flush_error :: "pystr \<Rightarrow> exn option" where
  "flush_error bfr =
     (if list_ex is_surrogate bfr then Some UnicodeEncodeError
      else if list_all is_xml_char bfr then None
      else Some (ValueError msg_xml_compatible))"

fun text_error :: "pystr \<Rightarrow> pystr \<Rightarrow> exn option" where
  "text_error bfr [] = flush_error bfr"
| "text_error bfr (c # cs) =
     (if is_break c then
        (case flush_error bfr of
           Some e \<Rightarrow> Some e
         | None \<Rightarrow> text_error [] cs)
      else text_error (bfr @ [c]) cs)"

definition run_text_of :: "pystr \<Rightarrow> pystr" where
  "run_text_of t = map (\<lambda>c. if c = 13 then 10 else c) t"

definition set_text :: "pystr \<Rightarrow> cell \<Rightarrow> exn + cell" where
  "set_text t c =
     (case text_error [] t of
        Some e \<Rightarrow> Inl e
      | None \<Rightarrow>
          Inr (c\<lparr>paragraphs :=
                   [\<lparr>alignment = None,
                     runs = [\<lparr>run_text = run_text_of t, run_bold = False, run_size = None\<rparr>]\<rparr>]\<rparr>))"

text \<open>\<open>for paragraph in cell.paragraphs: for run in paragraph.runs: run.font.size = Pt(10)\<close>\<close>

definition set_font_size :: "cell \<Rightarrow> cell" where
  "set_font_size c =
     c\<lparr>paragraphs := map (\<lambda>p. p\<lparr>runs := map (\<lambda>r. r\<lparr>run_size := Some 10\<rparr>) (runs p)\<rparr>) (paragraphs c)\<rparr>"

text \<open>The formatting of a header cell (lines 415 to 422 of the source).\<close>

definition format_header_cell :: "cell \<Rightarrow> cell" where
  "format_header_cell c =
     c\<lparr>paragraphs :=
          map (\<lambda>p. p\<lparr>alignment := Some CENTER,
                     runs := map (\<lambda>r. r\<lparr>run_bold := True, run_size := Some 10\<rparr>) (runs p)\<rparr>)
              (paragraphs c),
        tcPr := tcPr c @ [lit ''<w:shd w:fill=\"5B9BD5\"/>'']\<rparr>"

text \<open>The formatting of a body cell (lines 429 to 432).\<close>

definition format_body_cell :: "cell \<Rightarrow> cell" where
  "format_body_cell c =
     c\<lparr>paragraphs :=
          map (\<lambda>p. p\<lparr>alignment := Some CENTER,
                     runs := map (\<lambda>r. r\<lparr>run_size := Some 10\<rparr>) (runs p)\<rparr>)
              (paragraphs c)\<rparr>"

text \<open>
  \<open>p = target_doc.add_paragraph(); p.style = name; p.add_run(text)\<close>: the style lookup
  raises \<open>KeyError\<close> for an unknown name and \<open>ValueError\<close> for a style of another type;
  then the run is written.
\<close>

definition add_styled_paragraph :: "styles \<Rightarrow> pystr \<Rightarrow> pystr \<Rightarrow> node list \<Rightarrow> exn + node list" where
  "add_styled_paragraph st name t doc =
     (case st name of
        None \<Rightarrow> Inl (KeyError name)
      | Some ty \<Rightarrow>
          if ty = PARAGRAPH_STYLE then
            (case text_error [] t of
               Some e \<Rightarrow> Inl e
             | None \<Rightarrow> Inr (doc @ [Paragraph name (run_text_of t)]))
          else Inl (ValueError name))"

text \<open>
  \<open>add_table(rows, cols)\<close> and \<open>table.style = name\<close>, which looks the style up as the
  paragraph style is; \<open>table.add_row()\<close> gives one new cell for each grid column.
\<close>

definition add_table :: "nat \<Rightarrow> nat \<Rightarrow> table" where
  "add_table nrows ncols =
     \<lparr>tbl_style = None, tbl_grid = ncols, tbl_rows = replicate nrows (replicate ncols new_cell)\<rparr>"

definition set_table_style :: "styles \<Rightarrow> pystr \<Rightarrow> table \<Rightarrow> exn + table" where
  "set_table_style st name t =
     (case st name of
        None \<Rightarrow> Inl (KeyError name)
      | Some ty \<Rightarrow>
          if ty = TABLE_STYLE then Inr (t\<lparr>tbl_style := Some name\<rparr>)
          else Inl (ValueError name))"

definition add_row :: "table \<Rightarrow> cell list" where
  "add_row t = replicate (tbl_grid t) new_cell"

section \<open>The block parser and document builder\<close>

text \<open>
  The style names the builder binds (lines 332, 339, 346, 353, 360 and 436 of the
  source), as code points: the letter \<open>A\<close> followed by U+6807 U+9898 for the title, by
  U+6B63 U+6587 for the body text, and by U+4E00, U+4E8C or U+4E09 and U+7EA7 U+6807
  U+9898 for the headings of level one, two and three.
\<close>

definition style_title :: pystr where
  "style_title = [65, 26631, 39064]"

definition style_text :: pystr where
  "style_text = [65, 27491, 25991]"

definition style_onetitle :: pystr where
  "style_onetitle = [65, 19968, 32423, 26631, 39064]"

definition style_twotitle :: pystr where
  "style_twotitle = [65, 20108, 32423, 26631, 39064]"

definition style_threetitle :: pystr where
  "style_threetitle = [65, 19977, 32423, 26631, 39064]"

text \<open>
  The body of each of the five \<open>div\<close> branches: \<open>re.search(r'>(.*?)</div>', line)\<close> and,
  if it matches, a paragraph of the branch's style with the group as its run.
\<close>

definition div_block :: "styles \<Rightarrow> pystr \<Rightarrow> pystr \<Rightarrow> node list \<Rightarrow> exn + node list" where
  "div_block st name line doc =
     (case re_search False [lit ''>''] [lit ''</div>''] line of
        Some g \<Rightarrow> add_styled_paragraph st name g doc
      | None \<Rightarrow> Inr doc)"

text \<open>
  The inner loop of the table branch (lines 369 to 371): it collects the raw lines up to
  the first one whose trimmed form starts with \<open></table>\<close>, or to the end of the input.
\<close>

function capture :: "pystr list \<Rightarrow> nat \<Rightarrow> pystr list \<Rightarrow> pystr list \<times> nat" where
  "capture lines i table_content =
     (if i < length lines \<and> \<not> prefix (lit ''</table>'') (strip (lines ! i))
      then capture lines (i + 1) (table_content @ [lines ! i])
      else (table_content, i))"
  by pat_completeness auto
termination
  by (relation "measure (\<lambda>(lines, i, table_content). length lines - i)") auto

declare capture.simps [simp del]

text \<open>The header row and the body rows of the captured text (lines 377 to 396).\<close>

definition extract_header :: "pystr \<Rightarrow> pystr list list" where
  "extract_header table_text =
     (case re_search True [lit ''<thead>''] [lit ''</thead>''] table_text of
        Some header_content \<Rightarrow>
          (let header_row = re_findall True [lit ''<th>''] [lit ''</th>''] header_content
           in if header_row \<noteq> [] then [map strip header_row] else [])
      | None \<Rightarrow> [])"

definition extract_row :: "pystr \<Rightarrow> pystr list list" where
  "extract_row row =
     (let cells = re_findall True [lit ''<th>'', lit ''<td>''] [lit ''</th>'', lit ''</td>''] row
      in if cells \<noteq> [] then [map strip cells] else [])"

definition extract_body :: "pystr \<Rightarrow> pystr list list" where
  "extract_body table_text =
     (case re_search True [lit ''<tbody>''] [lit ''</tbody>''] table_text of
        Some body_content \<Rightarrow>
          concat (map extract_row (re_findall True [lit ''<tr>''] [lit ''</tr>''] body_content))
      | None \<Rightarrow> [])"

definition extract_table_data :: "pystr \<Rightarrow> pystr list list" where
  "extract_table_data table_text = extract_header table_text @ extract_body table_text"

text \<open>
  \<open>for j, cell in enumerate(values): cells[j].text = cell; ...\<close> with the formatting
  \<open>fmt\<close> of the written cell. \<open>cells\<close> is the tuple \<open>row.cells\<close>: indexing it at
  \<open>j \<ge> len(cells)\<close> raises \<open>IndexError\<close>, before the text is written.
\<close>

fun fill_cells :: "(cell \<Rightarrow> cell) \<Rightarrow> cell list \<Rightarrow> nat \<Rightarrow> pystr list \<Rightarrow> exn + cell list" where
  "fill_cells fmt cells j [] = Inr cells"
| "fill_cells fmt cells j (v # vs) =
     (if j < length cells then
        (case set_text v (cells ! j) of
           Inl e \<Rightarrow> Inl e
         | Inr c \<Rightarrow> fill_cells fmt (cells[j := fmt c]) (j + 1) vs)
      else Inl IndexError)"

text \<open>\<open>for row in table_data[1:]: row_cells = table.add_row().cells; ...\<close> (lines 425 to 432).\<close>

fun add_rows :: "table \<Rightarrow> pystr list list \<Rightarrow> exn + table" where
  "add_rows t [] = Inr t"
| "add_rows t (row # rows) =
     (case fill_cells format_body_cell (add_row t) 0 row of
        Inl e \<Rightarrow> Inl e
      | Inr row_cells \<Rightarrow> add_rows (t\<lparr>tbl_rows := tbl_rows t @ [row_cells]\<rparr>) rows)"

text \<open>Lines 399 to 432: the table node of the extracted rows, if there are any.\<close>

definition create_table :: "styles \<Rightarrow> pystr list list \<Rightarrow> node list \<Rightarrow> exn + node list" where
  "create_table st table_data doc =
     (if table_data \<noteq> [] \<and> 0 < length table_data then
        (case set_table_style st (lit ''Table Grid'') (add_table 1 (length (table_data ! 0))) of
           Inl e \<Rightarrow> Inl e
         | Inr t0 \<Rightarrow>
             (let t1 = t0\<lparr>tbl_rows := map (map set_font_size) (tbl_rows t0)\<rparr>
              in case fill_cells format_header_cell (tbl_rows t1 ! 0) 0 (table_data ! 0) of
                   Inl e \<Rightarrow> Inl e
                 | Inr hdr_cells \<Rightarrow>
                     (case add_rows (t1\<lparr>tbl_rows := (tbl_rows t1)[0 := hdr_cells]\<rparr>) (drop 1 table_data) of
                        Inl e \<Rightarrow> Inl e
                      | Inr t2 \<Rightarrow> Inr (doc @ [TableNode t2]))))
      else Inr doc)"

text \<open>
  One iteration of the outer loop (lines 326 to 437), before its \<open>i += 1\<close>: the index the
  branch leaves and the document, or the exception raised.
\<close>

definition step :: "styles \<Rightarrow> pystr list \<Rightarrow> nat \<Rightarrow> node list \<Rightarrow> exn + nat \<times> node list" where
  "step st lines i doc =
     (let line = strip (lines ! i) in
      if prefix (lit ''<div class=\"title\"'') line then
        map_sum id (Pair i) (div_block st style_title line doc)
      else if prefix (lit ''<div class=\"text\"'') line then
        map_sum id (Pair i) (div_block st style_text line doc)
      else if prefix (lit ''<div class=\"onetitle\"'') line then
        map_sum id (Pair i) (div_block st style_onetitle line doc)
      else if prefix (lit ''<div class=\"twotitle\"'') line then
        map_sum id (Pair i) (div_block st style_twotitle line doc)
      else if prefix (lit ''<div class=\"threetitle\"'') line then
        map_sum id (Pair i) (div_block st style_threetitle line doc)
      else if prefix (lit ''<table>'') line then
        (case capture lines (i + 1) [] of
           (table_content, i') \<Rightarrow>
             map_sum id (Pair i')
               (create_table st (extract_table_data (join [10] table_content)) doc))
      else if line \<noteq> [] \<and> \<not> prefix (lit ''</'') line then
        map_sum id (Pair i) (add_styled_paragraph st style_text line doc)
      else Inr (i, doc))"

lemma capture_index: "i \<le> snd (capture lines i table_content)"
proof (induction lines i table_content rule: capture.induct)
  case (1 lines i table_content)
  show ?case
  proof (cases "i < length lines \<and> \<not> prefix (lit ''</table>'') (strip (lines ! i))")
    case True
    then have "capture lines i table_content
                 = capture lines (i + 1) (table_content @ [lines ! i])"
      by (subst capture.simps) simp
    moreover from True "1"
    have "i + 1 \<le> snd (capture lines (i + 1) (table_content @ [lines ! i]))"
      by blast
    ultimately show ?thesis by simp
  next
    case False
    then have "capture lines i table_content = (table_content, i)"
      by (subst capture.simps) auto
    then show ?thesis by simp
  qed
qed

lemma map_sum_Pair_index: "map_sum id (Pair j) r = Inr (i', d) \<Longrightarrow> i' = j"
  by (cases r) simp_all

lemma step_index:
  assumes "step st lines i doc = Inr (i', doc')"
  shows "i \<le> i'"
proof -
  obtain tc j where cap: "capture lines (i + 1) [] = (tc, j)"
    by (cases "capture lines (i + 1) []")
  have j: "i \<le> j"
    using capture_index [of "i + 1" lines "[]"] cap by simp
  have "i' = i \<or> i' = j"
    using assms cap unfolding step_def Let_def
    by (auto split: if_splits dest: map_sum_Pair_index)
  with j show ?thesis by auto
qed

text \<open>The outer loop (lines 324 to 439) from index \<open>i\<close> on.\<close>

function build_loop :: "styles \<Rightarrow> pystr list \<Rightarrow> nat \<Rightarrow> node list \<Rightarrow> exn + node list" where
  "build_loop st lines i doc =
     (if i < length lines then
        (case step st lines i doc of
           Inl e \<Rightarrow> Inl e
         | Inr (i', doc') \<Rightarrow> build_loop st lines (i' + 1) doc')
      else Inr doc)"
  by pat_completeness auto
termination
proof (relation "measure (\<lambda>(st, lines, i, doc). length lines - i)")
  show "wf (measure (\<lambda>(st, lines, i, doc). length lines - i))" by simp
next
  fix st :: styles and lines :: "pystr list" and i :: nat and doc :: "node list"
    and x2 :: "nat \<times> node list" and i' :: nat and doc' :: "node list"
  assume "i < length lines" and s: "step st lines i doc = Inr x2" and x: "(i', doc') = x2"
  from s x have "step st lines i doc = Inr (i', doc')" by simp
  then have "i \<le> i'" by (rule step_index)
  with \<open>i < length lines\<close>
  show "((st, lines, i' + 1, doc'), (st, lines, i, doc))
          \<in> measure (\<lambda>(st, lines, i, doc). length lines - i)"
    by simp
qed

declare build_loop.simps [simp del]

text \<open>Lines 322 to 439: the body nodes built from the markdown text.\<close>

definition build_body :: "styles \<Rightarrow> pystr \<Rightarrow> exn + node list" where
  "build_body st markdown_content = build_loop st (split_on 10 markdown_content) 0 []"

section \<open>Files, archives and XML trees\<close>

text \<open>
  An XML element as lxml shows it: the tag in Clark notation (\<open>{namespace}local\<close>), the
  attributes in order, the child elements. The content of a file is kept by what its
  readers see: the tree of an XML file, the members of a ZIP archive in order, or bytes
  that are neither. So \<open>etree.parse\<close> gives back the tree that \<open>tree.write\<close> wrote, and
  \<open>zipfile.ZipFile\<close> the members an archive was written with.
\<close>

datatype xml = Element (tag: pystr) (attrib: "(pystr \<times> pystr) list") (children: "xml list")

datatype fdata =
    Bytes "nat list"
  | XmlFile xml
  | ZipFile "(pystr \<times> fdata) list"

datatype fnode = File fdata | Dir

text \<open>
  The file system below the working directory: paths are lists of components, the empty
  path is the working directory itself. The state persists when an exception is raised,
  so an action gives the state back with its result or its exception.
\<close>

type_synonym path = "pystr list"

type_synonym fs = "(path \<times> fnode) list"

type_synonym 'a io = "fs \<Rightarrow> (exn + 'a) \<times> fs"

definition return_io :: "'a \<Rightarrow> 'a io" where
  "return_io x fs = (Inr x, fs)"

definition raise_io :: "exn \<Rightarrow> 'a io" where
  "raise_io e fs = (Inl e, fs)"

definition bind_io :: "'a io \<Rightarrow> ('a \<Rightarrow> 'b io) \<Rightarrow> 'b io" where
  "bind_io m f fs = (case m fs of (Inl e, fs') \<Rightarrow> (Inl e, fs') | (Inr x, fs') \<Rightarrow> f x fs')"

definition seq_io :: "'a io \<Rightarrow> 'b io \<Rightarrow> 'b io" where
  "seq_io m n = bind_io m (\<lambda>_. n)"

text \<open>\<open>try: m except Exception as e: h(e)\<close> and \<open>try: m finally: c\<close>.\<close>

definition try_except :: "'a io \<Rightarrow> (exn \<Rightarrow> 'a io) \<Rightarrow> 'a io" where
  "try_except m h fs = (case m fs of (Inl e, fs') \<Rightarrow> h e fs' | (Inr x, fs') \<Rightarrow> (Inr x, fs'))"

definition try_finally :: "'a io \<Rightarrow> unit io \<Rightarrow> 'a io" where
  "try_finally m c fs =
     (case m fs of
        (r, fs') \<Rightarrow> (case c fs' of (Inl e, fs'') \<Rightarrow> (Inl e, fs'') | (Inr _, fs'') \<Rightarrow> (r, fs'')))"

text \<open>\<open>for x in xs: f(x)\<close>\<close>

fun for_each :: "('a \<Rightarrow> unit io) \<Rightarrow> 'a list \<Rightarrow> unit io" where
  "for_each f [] = return_io ()"
| "for_each f (x # xs) = seq_io (f x) (for_each f xs)"

definition path_of :: "pystr \<Rightarrow> path" where
  "path_of s = filter (\<lambda>c. c \<noteq> []) (split_on 47 s)"

definition os_path_join :: "path \<Rightarrow> pystr \<Rightarrow> path" where
  "os_path_join d rel = d @ path_of rel"

definition os_path_dirname :: "path \<Rightarrow> path" where
  "os_path_dirname p = butlast p"

definition node_at :: "fs \<Rightarrow> path \<Rightarrow> fnode option" where
  "node_at fs p = (if p = [] then Some Dir else map_of fs p)"

definition os_path_exists :: "fs \<Rightarrow> path \<Rightarrow> bool" where
  "os_path_exists fs p \<longleftrightarrow> node_at fs p \<noteq> None"

text \<open>
  Opening a file for writing and writing its whole content: an existing file is
  replaced, a new one needs its directory.
\<close>

definition write_file :: "path \<Rightarrow> fdata \<Rightarrow> unit io" where
  "write_file p d fs =
     (case node_at fs p of
        Some Dir \<Rightarrow> (Inl OSError, fs)
      | Some (File old) \<Rightarrow> (Inr (), AList.update p (File d) fs)
      | None \<Rightarrow>
          if node_at fs (os_path_dirname p) = Some Dir
          then (Inr (), AList.update p (File d) fs)
          else (Inl OSError, fs))"

text \<open>\<open>os.makedirs(p, exist_ok)\<close>: the missing ancestors of \<open>p\<close> and \<open>p\<close> itself.\<close>

fun mkdir_each :: "path list \<Rightarrow> unit io" where
  "mkdir_each [] fs = (Inr (), fs)"
| "mkdir_each (p # ps) fs =
     (case node_at fs p of
        None \<Rightarrow> mkdir_each ps (AList.update p Dir fs)
      | Some Dir \<Rightarrow> mkdir_each ps fs
      | Some (File d) \<Rightarrow> (Inl OSError, fs))"

definition os_makedirs :: "bool \<Rightarrow> path \<Rightarrow> unit io" where
  "os_makedirs exist_ok p fs =
     (case node_at fs p of
        Some Dir \<Rightarrow> if exist_ok then (Inr (), fs) else (Inl OSError, fs)
      | Some (File d) \<Rightarrow> (Inl OSError, fs)
      | None \<Rightarrow> mkdir_each (prefixes p) fs)"

text \<open>\<open>shutil.rmtree(p, ignore_errors)\<close> and \<open>os.remove(p)\<close>.\<close>

definition shutil_rmtree :: "bool \<Rightarrow> path \<Rightarrow> unit io" where
  "shutil_rmtree ignore_errors p fs =
     (if map_of fs p = Some Dir then (Inr (), filter (\<lambda>(q, n). \<not> prefix p q) fs)
      else if ignore_errors then (Inr (), fs)
      else (Inl OSError, fs))"

definition os_remove :: "path \<Rightarrow> unit io" where
  "os_remove p fs =
     (case map_of fs p of
        Some (File d) \<Rightarrow> (Inr (), AList.delete p fs)
      | _ \<Rightarrow> (Inl OSError, fs))"

text \<open>
  \<open>shutil.copy2(src, dst)\<close>: a directory as destination receives the file under the
  source's base name.
\<close>

definition shutil_copy2 :: "path \<Rightarrow> path \<Rightarrow> unit io" where
  "shutil_copy2 src dst fs =
     (case node_at fs src of
        Some (File d) \<Rightarrow>
          if node_at fs dst = Some Dir \<and> src \<noteq> [] then write_file (dst @ [last src]) d fs
          else write_file dst d fs
      | _ \<Rightarrow> (Inl OSError, fs))"

text \<open>\<open>etree.parse(p).getroot()\<close> and \<open>tree.write(p, ...)\<close>.\<close>

definition etree_parse :: "path \<Rightarrow> xml io" where
  "etree_parse p fs =
     (case node_at fs p of
        Some (File (XmlFile root)) \<Rightarrow> (Inr root, fs)
      | Some (File d) \<Rightarrow> (Inl XMLSyntaxError, fs)
      | _ \<Rightarrow> (Inl OSError, fs))"

definition tree_write :: "path \<Rightarrow> xml \<Rightarrow> unit io" where
  "tree_write p root = write_file p (XmlFile root)"

text \<open>
  \<open>zipfile.ZipFile(p, 'r')\<close> and \<open>extractall\<close>: a member's name is split at the slashes,
  empty, \<open>.\<close> and \<open>..\<close> components are dropped, missing upper directories are made; a name
  ending in a slash is a directory.
\<close>

definition zip_open :: "path \<Rightarrow> (pystr \<times> fdata) list io" where
  "zip_open p fs =
     (case node_at fs p of
        Some (File (ZipFile members)) \<Rightarrow> (Inr members, fs)
      | Some (File d) \<Rightarrow> (Inl BadZipFile, fs)
      | _ \<Rightarrow> (Inl OSError, fs))"

definition extract_member :: "path \<Rightarrow> pystr \<times> fdata \<Rightarrow> unit io" where
  "extract_member extract_dir member =
     (let name = fst member;
          target = extract_dir @
            filter (\<lambda>c. c \<noteq> [] \<and> c \<noteq> lit ''.'' \<and> c \<noteq> lit ''..'') (split_on 47 name);
          upperdirs = os_path_dirname target
      in seq_io
           (\<lambda>fs. if upperdirs \<noteq> [] \<and> \<not> os_path_exists fs upperdirs
                 then os_makedirs False upperdirs fs else (Inr (), fs))
           (if name \<noteq> [] \<and> last name = 47
            then (\<lambda>fs. if node_at fs target = Some Dir then (Inr (), fs)
                       else os_makedirs False target fs)
            else write_file target (snd member)))"

text \<open>Lines 47 to 52.\<close>

definition unzip_docx :: "path \<Rightarrow> path \<Rightarrow> unit io" where
  "unzip_docx docx_path extract_dir =
     seq_io (\<lambda>fs. if os_path_exists fs extract_dir
                  then shutil_rmtree False extract_dir fs else (Inr (), fs))
    (seq_io (os_makedirs False extract_dir)
    (bind_io (zip_open docx_path) (for_each (extract_member extract_dir))))"

text \<open>
  Lines 55 to 61: every file below \<open>input_dir\<close> becomes a member named by its path
  relative to \<open>input_dir\<close>. \<open>os.walk\<close> fixes no order; the model takes the order of the
  file system's entries.
\<close>

definition walk_files :: "path \<Rightarrow> fs \<Rightarrow> (pystr \<times> fdata) list" where
  "walk_files input_dir fs =
     concat (map (\<lambda>(p, n). case n of
                    File d \<Rightarrow> if strict_prefix input_dir p
                              then [(join [47] (drop (length input_dir) p), d)] else []
                  | Dir \<Rightarrow> []) fs)"

definition zip_dir :: "path \<Rightarrow> path \<Rightarrow> unit io" where
  "zip_dir input_dir output_docx fs = write_file output_docx (ZipFile (walk_files input_dir fs)) fs"

section \<open>The package style merger\<close>

text \<open>The constants of lines 19 to 43.\<close>

definition NS_CT :: pystr where
  "NS_CT = lit ''http://schemas.openxmlformats.org/package/2006/content-types''"

definition NS_REL :: pystr where
  "NS_REL = lit ''http://schemas.openxmlformats.org/package/2006/relationships''"

definition REL_TYPE_NUMBERING :: pystr where
  "REL_TYPE_NUMBERING =
     lit ''http://schemas.openxmlformats.org/officeDocument/2006/relationships/numbering''"

definition REL_TYPE_STYLES :: pystr where
  "REL_TYPE_STYLES =
     lit ''http://schemas.openxmlformats.org/officeDocument/2006/relationships/styles''"

definition REL_TYPE_THEME :: pystr where
  "REL_TYPE_THEME =
     lit ''http://schemas.openxmlformats.org/officeDocument/2006/relationships/theme''"

definition PARTS_TO_COPY :: "pystr list" where
  "PARTS_TO_COPY =
     [lit ''word/styles.xml'',
      lit ''word/stylesWithEffects.xml'',
      lit ''word/theme/theme1.xml'',
      lit ''word/fontTable.xml'',
      lit ''word/numbering.xml'',
      lit ''word/settings.xml'',
      lit ''word/_rels/styles.xml.rels'',
      lit ''word/_rels/numbering.xml.rels'']"

definition CONTENT_TYPES :: "(pystr \<times> pystr) list" where
  "CONTENT_TYPES =
     [(lit ''/word/styles.xml'',
       lit ''application/vnd.openxmlformats-officedocument.wordprocessingml.styles+xml''),
      (lit ''/word/stylesWithEffects.xml'',
       lit ''application/vnd.ms-word.stylesWithEffects+xml''),
      (lit ''/word/theme/theme1.xml'',
       lit ''application/vnd.openxmlformats-officedocument.theme+xml''),
      (lit ''/word/fontTable.xml'',
       lit ''application/vnd.openxmlformats-officedocument.wordprocessingml.fontTable+xml''),
      (lit ''/word/numbering.xml'',
       lit ''application/vnd.openxmlformats-officedocument.wordprocessingml.numbering+xml''),
      (lit ''/word/settings.xml'',
       lit ''application/vnd.openxmlformats-officedocument.wordprocessingml.settings+xml'')]"

text \<open>
  The element operations the merger uses: a tag in Clark notation, \<open>el.get(k)\<close>,
  \<open>el.set(k, v)\<close> and \<open>root.append(el)\<close>.
\<close>

definition clark :: "pystr \<Rightarrow> pystr \<Rightarrow> pystr" where
  "clark ns name = lit ''{'' @ ns @ lit ''}'' @ name"

definition get_attr :: "xml \<Rightarrow> pystr \<Rightarrow> pystr option" where
  "get_attr el k = map_of (attrib el) k"

definition set_attr :: "pystr \<Rightarrow> pystr \<Rightarrow> xml \<Rightarrow> xml" where
  "set_attr k v el = Element (tag el) (AList.update k v (attrib el)) (children el)"

definition append_child :: "xml \<Rightarrow> xml \<Rightarrow> xml" where
  "append_child root el = Element (tag root) (attrib root) (children root @ [el])"

text \<open>
  Line 67: the XPath \<open>ct:Override[@PartName="partname"]\<close> selects the children of the
  root that are \<open>Override\<close> elements of the content-types namespace with that attribute
  value. (The part name is spliced into the expression between double quotes; the model
  takes the meaning the expression has for a name without a double quote, as all part
  names of the merger are.)
\<close>

definition xpath_override :: "xml \<Rightarrow> pystr \<Rightarrow> xml list" where
  "xpath_override root partname =
     filter (\<lambda>el. tag el = clark NS_CT (lit ''Override'')
                  \<and> get_attr el (lit ''PartName'') = Some partname)
            (children root)"

text \<open>Lines 64 to 73.\<close>

definition ensure_content_type_override :: "path \<Rightarrow> pystr \<Rightarrow> pystr \<Rightarrow> unit io" where
  "ensure_content_type_override ct_path partname content_type =
     bind_io (etree_parse ct_path) (\<lambda>root.
       let found = xpath_override root partname in
       if found = [] then
         (let override = Element (clark NS_CT (lit ''Override'')) [] [];
              override = set_attr (lit ''PartName'') partname override;
              override = set_attr (lit ''ContentType'') content_type override
          in tree_write ct_path (append_child root override))
       else return_io ())"

text \<open>Lines 76 to 83.\<close>

definition read_relationships :: "path \<Rightarrow> xml io" where
  "read_relationships doc_rels_path =
     seq_io
       (\<lambda>fs. if \<not> os_path_exists fs doc_rels_path
             then seq_io (os_makedirs True (os_path_dirname doc_rels_path))
                    (tree_write doc_rels_path (Element (clark NS_REL (lit ''Relationships'')) [] []))
                    fs
             else (Inr (), fs))
       (etree_parse doc_rels_path)"

text \<open>\<open>str(n)\<close> for a natural number, and the identifier \<open>f"rId{n}"\<close>.\<close>

fun str_nat :: "nat \<Rightarrow> pystr" where
  "str_nat n = (if n < 10 then [48 + n] else str_nat (n div 10) @ [48 + n mod 10])"

declare str_nat.simps [simp del]

definition rId :: "nat \<Rightarrow> pystr" where
  "rId n = lit ''rId'' @ str_nat n"

text \<open>Reading an identifier back as a number: the loop below ends because of it.\<close>

definition rId_number :: "pystr \<Rightarrow> nat" where
  "rId_number s = fold (\<lambda>d a. 10 * a + (d - 48)) (drop 3 s) 0"

lemma decimal_str_nat: "fold (\<lambda>d a. 10 * a + (d - 48)) (str_nat n) 0 = n"
proof (induction n rule: str_nat.induct)
  case (1 n)
  show ?case
  proof (cases "n < 10")
    case True
    then show ?thesis by (subst str_nat.simps) simp
  next
    case False
    with "1" have "fold (\<lambda>d a. 10 * a + (d - 48)) (str_nat (n div 10)) 0 = n div 10"
      by simp
    with False show ?thesis by (subst str_nat.simps) simp
  qed
qed

lemma rId_number_rId: "rId_number (rId n) = n"
  by (simp add: rId_number_def rId_def lit_def decimal_str_nat)

lemma rId_bounded:
  assumes "rId n \<in> set existing_ids"
  shows "n \<le> Max (rId_number ` set existing_ids)"
proof -
  have "rId_number (rId n) \<in> rId_number ` set existing_ids"
    using assms by (rule imageI)
  then have "n \<in> rId_number ` set existing_ids"
    by (simp add: rId_number_rId)
  then show ?thesis by simp
qed

text \<open>Lines 99 to 103: the loop that looks for the first unused number.\<close>

function next_num :: "pystr list \<Rightarrow> nat \<Rightarrow> nat" where
  "next_num existing_ids n =
     (if rId n \<in> set existing_ids then next_num existing_ids (n + 1) else n)"
  by pat_completeness auto
termination
proof (relation "measure (\<lambda>(existing_ids, n). Suc (Max (rId_number ` set existing_ids)) - n)")
  show "wf (measure (\<lambda>(existing_ids, n). Suc (Max (rId_number ` set existing_ids)) - n))"
    by simp
next
  fix existing_ids :: "pystr list" and n :: nat
  assume "rId n \<in> set existing_ids"
  then have "n \<le> Max (rId_number ` set existing_ids)" by (rule rId_bounded)
  then show "((existing_ids, n + 1), (existing_ids, n))
               \<in> measure (\<lambda>(existing_ids, n). Suc (Max (rId_number ` set existing_ids)) - n)"
    by simp
qed

declare next_num.simps [simp del]

text \<open>
  Lines 90 to 93 and 98: the XPath \<open>r:Relationship[@Type="..." and @Target="..."]\<close>
  (with the same remark on quotes) and the identifiers of the \<open>Relationship\<close> children.
\<close>

definition xpath_relationship :: "xml \<Rightarrow> pystr \<Rightarrow> pystr \<Rightarrow> xml list" where
  "xpath_relationship root rel_type target =
     filter (\<lambda>el. tag el = clark NS_REL (lit ''Relationship'')
                  \<and> get_attr el (lit ''Type'') = Some rel_type
                  \<and> get_attr el (lit ''Target'') = Some target)
            (children root)"

definition existing_ids_of :: "xml \<Rightarrow> pystr list" where
  "existing_ids_of root =
     concat (map (\<lambda>el. case get_attr el (lit ''Id'') of
                          Some i \<Rightarrow> if i \<noteq> [] then [i] else []
                        | None \<Rightarrow> [])
                 (filter (\<lambda>el. tag el = clark NS_REL (lit ''Relationship'')) (children root)))"

text \<open>Lines 86 to 110.\<close>

definition ensure_relationship :: "path \<Rightarrow> pystr \<Rightarrow> pystr \<Rightarrow> unit io" where
  "ensure_relationship doc_rels_path rel_type target =
     bind_io (read_relationships doc_rels_path) (\<lambda>root.
       let exists = xpath_relationship root rel_type target in
       if exists \<noteq> [] then tree_write doc_rels_path root
       else
         (let existing_ids = existing_ids_of root;
              rid = rId (next_num existing_ids 1);
              rel = Element (clark NS_REL (lit ''Relationship'')) [] [];
              rel = set_attr (lit ''Id'') rid rel;
              rel = set_attr (lit ''Type'') rel_type rel;
              rel = set_attr (lit ''Target'') target rel
          in tree_write doc_rels_path (append_child root rel)))"

text \<open>Lines 113 to 120.\<close>

definition safe_copy :: "path \<Rightarrow> path \<Rightarrow> pystr \<Rightarrow> bool io" where
  "safe_copy src_root dst_root rel_path =
     (let src = os_path_join src_root rel_path;
          dst = os_path_join dst_root rel_path
      in (\<lambda>fs. if os_path_exists fs src
               then seq_io (os_makedirs True (os_path_dirname dst))
                      (seq_io (shutil_copy2 src dst) (return_io True)) fs
               else return_io False fs))"

text \<open>
  What the docx library gives the tool: the package that \<open>Document().save\<close> writes, and
  the styles that \<open>Document(path)\<close> finds in a package (or the exception of loading it).
  A saved document is its package parts and its body.
\<close>

record docx =
  docx_parts :: "(pystr \<times> fdata) list"
  docx_body :: "node list"

record env =
  blank_docx :: "(pystr \<times> fdata) list"
  load_styles :: "(pystr \<times> fdata) list \<Rightarrow> exn + styles"

text \<open>
  The messages of the plugin host. The blob of a blob message is typed as bytes and
  validated when the message is constructed: \<open>create_blob_message(blob=None, ...)\<close>
  raises a validation error, which is an \<open>Exception\<close> like the others.
\<close>

datatype message =
    BlobMessage docx pystr
  | TextMessage exn

definition create_blob_message :: "docx option \<Rightarrow> pystr \<Rightarrow> exn + message" where
  "create_blob_message blob filename =
     (case blob of
        None \<Rightarrow> Inl ValidationError
      | Some d \<Rightarrow> Inr (BlobMessage d filename))"

definition t_dir :: path where
  "t_dir = [lit ''_tmp_tpl_unzip'']"

definition b_dir :: path where
  "b_dir = [lit ''_tmp_blank_unzip'']"

text \<open>Lines 134 and 135, lines 138 to 141, lines 144 to 148.\<close>

definition copy_parts :: "unit io" where
  "copy_parts = for_each (\<lambda>part. seq_io (safe_copy t_dir b_dir part) (return_io ())) PARTS_TO_COPY"

definition repair_content_types :: "unit io" where
  "repair_content_types =
     (let ct_path = os_path_join b_dir (lit ''[Content_Types].xml'')
      in for_each
           (\<lambda>(partname, ctype) fs.
              if os_path_exists fs (os_path_join b_dir (dropWhile (\<lambda>c. c = 47) partname))
              then ensure_content_type_override ct_path partname ctype fs
              else (Inr (), fs))
           CONTENT_TYPES)"

definition repair_relationships :: "unit io" where
  "repair_relationships =
     (let doc_rels_path = os_path_join b_dir (lit ''word/_rels/document.xml.rels'')
      in seq_io (ensure_relationship doc_rels_path REL_TYPE_STYLES (lit ''styles.xml''))
        (seq_io (ensure_relationship doc_rels_path REL_TYPE_THEME (lit ''theme/theme1.xml''))
           (\<lambda>fs. if os_path_exists fs (os_path_join b_dir (lit ''word/numbering.xml''))
                 then ensure_relationship doc_rels_path REL_TYPE_NUMBERING (lit ''numbering.xml'') fs
                 else (Inr (), fs))))"

text \<open>Lines 123 to 155.\<close>

definition copy_styles_and_dependencies_from_template :: "env \<Rightarrow> path \<Rightarrow> path \<Rightarrow> unit io" where
  "copy_styles_and_dependencies_from_template ev template_path output_path =
     seq_io (write_file output_path (ZipFile (blank_docx ev)))
    (seq_io (unzip_docx template_path t_dir)
    (seq_io (unzip_docx output_path b_dir)
    (seq_io copy_parts
    (seq_io repair_content_types
    (seq_io repair_relationships
    (seq_io (zip_dir b_dir output_path)
    (seq_io (shutil_rmtree True t_dir)
            (shutil_rmtree True b_dir))))))))"

section \<open>The tool invocation\<close>

definition tmp_template :: path where
  "tmp_template = [lit ''tmp_template.docx'']"

definition tmp_output :: path where
  "tmp_output = [lit ''tmp_output.docx'']"

text \<open>\<open>Document(path)\<close>: the parts of the package and the styles found in it.\<close>

definition open_document :: "env \<Rightarrow> path \<Rightarrow> ((pystr \<times> fdata) list \<times> styles) io" where
  "open_document ev p fs =
     (case node_at fs p of
        Some (File (ZipFile parts)) \<Rightarrow>
          (case load_styles ev parts of
             Inl e \<Rightarrow> (Inl e, fs)
           | Inr st \<Rightarrow> (Inr (parts, st), fs))
      | _ \<Rightarrow> (Inl PackageNotFoundError, fs))"

text \<open>
  Lines 306 to 457, in three parts. The \<open>try\<close> block (lines 313 to 445) stages the
  template, merges, loads the merged package, builds the body and saves the document.
  The handler of line 447 prints the exception and falls off the end of the function,
  which so returns \<open>None\<close>. The \<open>finally\<close> block (lines 452 to 457) removes the two staged
  files. (What is printed is not modelled.)
\<close>

definition staged_document :: "env \<Rightarrow> fdata \<Rightarrow> pystr \<Rightarrow> docx io" where
  "staged_document ev template_bytes markdown_content =
     seq_io (write_file tmp_template template_bytes)
    (seq_io (copy_styles_and_dependencies_from_template ev tmp_template tmp_output)
    (bind_io (open_document ev tmp_output) (\<lambda>(parts, st).
       (case build_body st markdown_content of
          Inl e \<Rightarrow> raise_io e
        | Inr body \<Rightarrow> return_io \<lparr>docx_parts = parts, docx_body = body\<rparr>))))"

definition remove_staged_files :: "unit io" where
  "remove_staged_files =
     seq_io (\<lambda>fs. if os_path_exists fs tmp_template then os_remove tmp_template fs
                   else (Inr (), fs))
            (\<lambda>fs. if os_path_exists fs tmp_output then os_remove tmp_output fs
                   else (Inr (), fs))"

definition generate_docx_with_template :: "env \<Rightarrow> fdata \<Rightarrow> pystr \<Rightarrow> docx option io" where
  "generate_docx_with_template ev template_bytes markdown_content =
     try_finally
       (try_except
          (bind_io (staged_document ev template_bytes markdown_content)
             (\<lambda>doc_bytes. return_io (Some doc_bytes)))
          (\<lambda>e. return_io None))
       remove_staged_files"

text \<open>
  The parameters of an invocation. The template is an object with a \<open>blob\<close> attribute, an
  object with a \<open>read\<close> method, a \<open>bytes\<close> value or something else.
\<close>

datatype template_file = WithBlob fdata | WithRead fdata | RawBytes fdata | OtherObject

record tool_parameters =
  param_model :: template_file
  param_query :: pystr
  param_output_filename :: "pystr option"

definition default_filename :: pystr where
  "default_filename =
     [39640, 26657, 27605, 19994, 29983, 23601, 19994, 24773, 20917, 20998, 26512, 25253,
      21578, 46, 100, 111, 99, 120]"

definition msg_type_error :: pystr where
  "msg_type_error =
     [27169, 26495, 25991, 20214, 26684, 24335, 38169, 35823, 65292, 38656, 35201, 68, 105,
      102, 121, 25991, 20214, 23545, 35937, 25110, 23383, 33410, 27969]"

definition msg_not_docx :: pystr where
  "msg_not_docx =
     [27169, 26495, 25991, 20214, 19981, 26159, 26377, 25928, 30340, 68, 79, 67, 88, 26684,
      24335]"

definition msg_not_zip :: pystr where
  "msg_not_zip =
     [27169, 26495, 25991, 20214, 19981, 26159, 26377, 25928, 30340, 90, 73, 80, 21387,
      32553, 25991, 20214, 65288, 21487, 33021, 19981, 26159, 68, 79, 67, 88, 65289]"

text \<open>\<open>str.lower\<close> on the ASCII letters, which decide whether a name ends in \<open>.docx\<close>.\<close>

definition lower :: "pystr \<Rightarrow> pystr" where
  "lower s = map (\<lambda>c. if 65 \<le> c \<and> c \<le> 90 then c + 32 else c) s"

text \<open>Lines 483 to 490: the check of the template bytes, which touches no file.\<close>

definition required_files :: "pystr list" where
  "required_files = [lit ''[Content_Types].xml'', lit ''word/document.xml'']"

definition check_template :: "fdata \<Rightarrow> exn + unit" where
  "check_template template_bytes =
     (case template_bytes of
        ZipFile members \<Rightarrow>
          if list_all (\<lambda>f. f \<in> set (map fst members)) required_files then Inr ()
          else Inl (ValueError msg_not_docx)
      | _ \<Rightarrow> Inl (ValueError msg_not_zip))"

text \<open>Lines 464 to 466: the name under which the document is delivered.\<close>

definition output_filename :: "tool_parameters \<Rightarrow> pystr" where
  "output_filename params =
     (let name = (case param_output_filename params of Some n \<Rightarrow> n | None \<Rightarrow> default_filename)
      in if \<not> suffix (lit ''.docx'') (lower name) then name @ lit ''.docx'' else name)"

text \<open>
  Lines 461 to 506: the messages the invocation yields, with the file system it leaves.
  A text message is the fixed prefix of line 506 followed by \<open>str(e)\<close>, kept as \<open>e\<close>; an
  exception that escapes the generator would be the left injection.
\<close>

definition invoke :: "env \<Rightarrow> tool_parameters \<Rightarrow> message list io" where
  "invoke ev params =
     (let template_file = param_model params;
          markdown_content = param_query params
      in try_except
           (bind_io
              (case template_file of
                 WithBlob b \<Rightarrow> return_io b
               | WithRead b \<Rightarrow> return_io b
               | RawBytes b \<Rightarrow> return_io b
               | OtherObject \<Rightarrow> raise_io (TypeError msg_type_error))
              (\<lambda>template_bytes.
                 seq_io (\<lambda>fs. (check_template template_bytes, fs))
                   (bind_io (generate_docx_with_template ev template_bytes markdown_content)
                      (\<lambda>final_docx_bytes fs.
                         (map_sum id (\<lambda>m. [m])
                            (create_blob_message final_docx_bytes (output_filename params)),
                          fs)))))
           (\<lambda>e. return_io [TextMessage e]))"

section \<open>Notions for stating the properties\<close>

text \<open>
  The element that lines 69 to 71 build, the element that lines 105 to 108 build, and
  the relationship table that \<open>ensure_relationship\<close> leaves for a given table.
\<close>

definition override_element :: "pystr \<Rightarrow> pystr \<Rightarrow> xml" where
  "override_element partname content_type =
     Element (clark NS_CT (lit ''Override''))
       [(lit ''PartName'', partname), (lit ''ContentType'', content_type)] []"

definition relationship_element :: "pystr \<Rightarrow> pystr \<Rightarrow> pystr \<Rightarrow> xml" where
  "relationship_element rid rel_type target =
     Element (clark NS_REL (lit ''Relationship''))
       [(lit ''Id'', rid), (lit ''Type'', rel_type), (lit ''Target'', target)] []"

definition with_relationship :: "xml \<Rightarrow> pystr \<Rightarrow> pystr \<Rightarrow> xml" where
  "with_relationship root rel_type target =
     (if xpath_relationship root rel_type target \<noteq> [] then root
      else append_child root
             (relationship_element (rId (next_num (existing_ids_of root) 1)) rel_type target))"

text \<open>
  Text that the document library accepts as the text of a run, and the exception of the
  first text of a list that it refuses.
\<close>

definition xml_compatible :: "pystr \<Rightarrow> bool" where
  "xml_compatible t \<longleftrightarrow> text_error [] t = None"

text \<open>The cell that \<open>cell.text = v\<close> leaves when the text is accepted.\<close>

definition written_cell :: "pystr \<Rightarrow> cell \<Rightarrow> cell" where
  "written_cell v c =
     c\<lparr>paragraphs :=
         [\<lparr>alignment = None,
           runs = [\<lparr>run_text = run_text_of v, run_bold = False, run_size = None\<rparr>]\<rparr>]\<rparr>"

fun first_text_error :: "pystr list \<Rightarrow> exn option" where
  "first_text_error [] = None"
| "first_text_error (v # vs) =
     (case text_error [] v of
        Some e \<Rightarrow> Some e
      | None \<Rightarrow> first_text_error vs)"

text \<open>
  Lines 125 to 141, on the paths of line 318: the merge up to the repair of the
  relationship table (the blank package saved, both archives extracted, the style parts
  copied, the manifest repaired).
\<close>

definition merge_prefix :: "env \<Rightarrow> unit io" where
  "merge_prefix ev =
     seq_io (write_file tmp_output (ZipFile (blank_docx ev)))
    (seq_io (unzip_docx tmp_template t_dir)
    (seq_io (unzip_docx tmp_output b_dir)
    (seq_io copy_parts repair_content_types)))"

text \<open>The two paths of lines 144 and 147.\<close>

definition doc_rels_path :: path where
  "doc_rels_path = os_path_join b_dir (lit ''word/_rels/document.xml.rels'')"

definition numbering_path :: path where
  "numbering_path = os_path_join b_dir (lit ''word/numbering.xml'')"

text \<open>
  Whether the relationship table in the blank working directory has a relationship, and
  whether the package stored at \<open>p\<close> has one from its main document part.
\<close>

definition table_has_relationship :: "fs \<Rightarrow> pystr \<Rightarrow> pystr \<Rightarrow> bool" where
  "table_has_relationship fs rel_type target =
     (case node_at fs doc_rels_path of
        Some (File (XmlFile root)) \<Rightarrow> xpath_relationship root rel_type target \<noteq> []
      | _ \<Rightarrow> False)"

definition package_has_relationship :: "fs \<Rightarrow> path \<Rightarrow> pystr \<Rightarrow> pystr \<Rightarrow> bool" where
  "package_has_relationship fs p rel_type target =
     (case node_at fs p of
        Some (File (ZipFile members)) \<Rightarrow>
          (case map_of members (lit ''word/_rels/document.xml.rels'') of
             Some (XmlFile root) \<Rightarrow> xpath_relationship root rel_type target \<noteq> []
           | _ \<Rightarrow> False)
      | _ \<Rightarrow> False)"

text \<open>
  An action keeps a path when the node at the path is the same after the action as
  before it, whether the action returns or raises.
\<close>

abbreviation keeps :: "path \<Rightarrow> 'a io \<Rightarrow> bool" where
  "keeps q m \<equiv> (\<forall>fs. node_at (snd (m fs)) q = node_at fs q)"

section \<open>Example packages\<close>

text \<open>
  A small blank package (manifest, main document part, styles, relationship table), the
  same with a numbering part of its own, and a library whose documents have the styles
  the builder needs.
\<close>

definition example_manifest :: xml where
  "example_manifest =
     Element (clark NS_CT (lit ''Types'')) []
       [override_element (lit ''/word/document.xml'') (lit ''application/xml'')]"

definition example_relationships :: xml where
  "example_relationships =
     Element (clark NS_REL (lit ''Relationships'')) []
       [relationship_element (lit ''rId1'') REL_TYPE_STYLES (lit ''styles.xml'')]"

definition example_blank :: "(pystr \<times> fdata) list" where
  "example_blank =
     [(lit ''[Content_Types].xml'', XmlFile example_manifest),
      (lit ''word/document.xml'', Bytes [1]),
      (lit ''word/styles.xml'', Bytes [2]),
      (lit ''word/_rels/document.xml.rels'', XmlFile example_relationships)]"

definition example_blank_numbering :: "(pystr \<times> fdata) list" where
  "example_blank_numbering = example_blank @ [(lit ''word/numbering.xml'', Bytes [3])]"

definition example_styles :: styles where
  "example_styles =
     map_of [(style_title, PARAGRAPH_STYLE), (style_text, PARAGRAPH_STYLE),
             (lit ''Table Grid'', TABLE_STYLE)]"

definition example_env :: "(pystr \<times> fdata) list \<Rightarrow> env" where
  "example_env blank = \<lparr>blank_docx = blank, load_styles = (\<lambda>parts. Inr example_styles)\<rparr>"

text \<open>
  A template with a styles part and no numbering part; an archive in which
  \<open>word/styles.xml\<close> is a directory; a table whose body row has three cells under a
  header of two.
\<close>

definition example_template :: fdata where
  "example_template =
     ZipFile [(lit ''[Content_Types].xml'', Bytes [4]),
              (lit ''word/document.xml'', Bytes [5]),
              (lit ''word/styles.xml'', Bytes [6])]"

definition example_template_dir :: fdata where
  "example_template_dir =
     ZipFile [(lit ''[Content_Types].xml'', Bytes [4]),
              (lit ''word/document.xml'', Bytes [5]),
              (lit ''word/styles.xml/x'', Bytes [6])]"

definition example_long_row :: pystr where
  "example_long_row =
     lit ''<table>'' @ [10]
     @ lit ''<thead><th>A</th><th>B</th></thead>'' @ [10]
     @ lit ''<tbody><tr><td>1</td><td>2</td><td>3</td></tr></tbody>'' @ [10]
     @ lit ''</table>''"

text \<open>\<open>ZipFile.namelist()\<close> of the bytes, where they are an archive.\<close>

definition namelist :: "fdata \<Rightarrow> pystr list" where
  "namelist d = (case d of ZipFile members \<Rightarrow> map fst members | _ \<Rightarrow> [])"

text \<open>A relationship table with the identifiers \<open>rId1\<close>, \<open>rId2\<close> and \<open>rId4\<close>.\<close>

definition example_relationships_gap :: xml where
  "example_relationships_gap =
     Element (clark NS_REL (lit ''Relationships'')) []
       [relationship_element (lit ''rId1'') REL_TYPE_STYLES (lit ''styles.xml''),
        relationship_element (lit ''rId2'') (lit ''settings'') (lit ''settings.xml''),
        relationship_element (lit ''rId4'') (lit ''fontTable'') (lit ''fontTable.xml'')]"

text \<open>
  The package the merger makes of \<open>example_template\<close> and \<open>example_blank_numbering\<close>, and
  the file system it leaves when it is given \<open>example_template_dir\<close> and \<open>example_blank\<close>.
\<close>

definition example_merged :: "(pystr \<times> fdata) list" where
  "example_merged =
     [(lit ''[Content_Types].xml'',
       XmlFile (append_child
         (append_child example_manifest
            (override_element (lit ''/word/styles.xml'')
               (lit ''application/vnd.openxmlformats-officedocument.wordprocessingml.styles+xml'')))
         (override_element (lit ''/word/numbering.xml'')
            (lit ''application/vnd.openxmlformats-officedocument.wordprocessingml.numbering+xml'')))),
      (lit ''word/document.xml'', Bytes [1]),
      (lit ''word/styles.xml'', Bytes [6]),
      (lit ''word/_rels/document.xml.rels'',
       XmlFile (append_child
         (append_child example_relationships
            (relationship_element (lit ''rId2'') REL_TYPE_THEME (lit ''theme/theme1.xml'')))
         (relationship_element (lit ''rId3'') REL_TYPE_NUMBERING (lit ''numbering.xml'')))),
      (lit ''word/numbering.xml'', Bytes [3])]"

definition example_residue :: fs where
  "example_residue =
     [(tmp_template, File example_template_dir),
      (tmp_output, File (ZipFile example_blank)),
      (t_dir, Dir),
      (t_dir @ [lit ''[Content_Types].xml''], File (Bytes [4])),
      (t_dir @ [lit ''word''], Dir),
      (t_dir @ [lit ''word'', lit ''document.xml''], File (Bytes [5])),
      (t_dir @ [lit ''word'', lit ''styles.xml''], Dir),
      (t_dir @ [lit ''word'', lit ''styles.xml'', lit ''x''], File (Bytes [6])),
      (b_dir, Dir),
      (b_dir @ [lit ''[Content_Types].xml''], File (XmlFile example_manifest)),
      (b_dir @ [lit ''word''], Dir),
      (b_dir @ [lit ''word'', lit ''document.xml''], File (Bytes [1])),
      (b_dir @ [lit ''word'', lit ''styles.xml''], File (Bytes [2])),
      (b_dir @ [lit ''word'', lit ''_rels''], Dir),
      (b_dir @ [lit ''word'', lit ''_rels'', lit ''document.xml.rels''],
       File (XmlFile example_relationships))]"

definition example_parameters :: "fdata \<Rightarrow> pystr \<Rightarrow> tool_parameters" where
  "example_parameters template_bytes markdown_content =
     \<lparr>param_model = RawBytes template_bytes, param_query = markdown_content,
      param_output_filename = None\<rparr>"

section \<open>Properties of the parser and builder\<close>

lemma table_not_div:
  "prefix (lit ''<table>'') l \<Longrightarrow> \<not> prefix (lit (CHR ''<'' # CHR ''d'' # s)) l"
  by (auto simp: lit_def prefix_def)

lemma set_text_compatible:
  "xml_compatible v \<Longrightarrow>
   set_text v c =
     Inr (written_cell v c)"
  by (simp add: set_text_def xml_compatible_def written_cell_def)

lemma set_text_refused: "text_error [] v = Some e \<Longrightarrow> set_text v c = Inl e"
  by (simp add: set_text_def)

lemma first_text_error_compatible: "list_all xml_compatible vs \<Longrightarrow> first_text_error vs = None"
  by (induction vs) (simp_all add: xml_compatible_def)

lemma fill_cells_fits:
  "j + length vs \<le> length cells \<Longrightarrow> list_all xml_compatible vs \<Longrightarrow>
   fill_cells fmt cells j vs =
     Inr (take j cells
          @ map2 (\<lambda>v c. fmt (written_cell v c))
              vs (drop j cells)
          @ drop (j + length vs) cells)"
proof (induction vs arbitrary: cells j)
  case Nil
  then show ?case by simp
next
  case (Cons v vs)
  let ?w = "\<lambda>v c. fmt (written_cell v c)"
  let ?cells = "cells[j := ?w v (cells ! j)]"
  from Cons.prems have j: "j < length cells" and v: "xml_compatible v"
    and vs: "list_all xml_compatible vs" by simp_all
  from Cons.prems have "(j + 1) + length vs \<le> length ?cells" by simp
  from Cons.IH [OF this vs]
  have "fill_cells fmt ?cells (j + 1) vs =
          Inr (take (j + 1) ?cells @ map2 ?w vs (drop (j + 1) ?cells)
               @ drop (j + 1 + length vs) ?cells)" .
  moreover have "take (j + 1) ?cells = take j cells @ [?w v (cells ! j)]"
    using j by (simp add: take_Suc_conv_app_nth)
  moreover have "drop (j + 1) ?cells = drop (j + 1) cells"
    by simp
  moreover have "drop (j + 1 + length vs) ?cells = drop (j + 1 + length vs) cells"
    by simp
  moreover have "drop j cells = cells ! j # drop (j + 1) cells"
    using j by (simp add: Cons_nth_drop_Suc)
  ultimately show ?case using j by (simp add: set_text_compatible [OF v])
qed

lemma fill_cells_overflow:
  "j \<le> length cells \<Longrightarrow> length cells < j + length vs \<Longrightarrow>
   fill_cells fmt cells j vs =
     Inl (case first_text_error (take (length cells - j) vs) of
            Some e \<Rightarrow> e
          | None \<Rightarrow> IndexError)"
proof (induction vs arbitrary: cells j)
  case Nil
  then show ?case by simp
next
  case (Cons v vs)
  show ?case
  proof (cases "j < length cells")
    case False
    with Cons.prems show ?thesis by simp
  next
    case True
    then obtain k where k: "length cells - j = Suc k" by (cases "length cells - j") auto
    show ?thesis
    proof (cases "text_error [] v")
      case (Some e)
      with True k show ?thesis by (simp add: set_text_refused)
    next
      case None
      then have v: "xml_compatible v" by (simp add: xml_compatible_def)
      let ?cells = "cells[j := fmt (written_cell v (cells ! j))]"
      from True Cons.prems have "j + 1 \<le> length ?cells" "length ?cells < (j + 1) + length vs"
        by simp_all
      from Cons.IH [OF this]
      have "fill_cells fmt ?cells (j + 1) vs =
              Inl (case first_text_error (take (length ?cells - (j + 1)) vs) of
                     Some e \<Rightarrow> e | None \<Rightarrow> IndexError)" .
      moreover from k have "length ?cells - (j + 1) = k" by simp
      ultimately show ?thesis using True k None by (simp add: set_text_compatible [OF v])
    qed
  qed
qed

lemma fill_new_row:
  assumes "length row \<le> tbl_grid t" and "list_all xml_compatible row"
  shows "fill_cells fmt (add_row t) 0 row =
           Inr (map (\<lambda>v. fmt (written_cell v new_cell))
                  row
                @ replicate (tbl_grid t - length row) new_cell)"
proof -
  let ?w = "\<lambda>v c. fmt (written_cell v c)"
  have "map2 ?w row (replicate (tbl_grid t) new_cell) = map (\<lambda>v. ?w v new_cell) row"
    using assms(1) by (auto simp: list_eq_iff_nth_eq)
  with assms show ?thesis
    by (simp add: fill_cells_fits add_row_def)
qed

lemma fill_cells_length:
  "fill_cells fmt cells j vs = Inr cells' \<Longrightarrow> length cells' = length cells"
  by (induction vs arbitrary: cells j) (auto split: if_splits sum.splits)

lemma add_rows_raises:
  "row \<in> set rows \<Longrightarrow> tbl_grid t < length row \<Longrightarrow> \<exists>e. add_rows t rows = Inl e"
proof (induction rows arbitrary: t)
  case Nil
  then show ?case by simp
next
  case (Cons r rows)
  show ?case
  proof (cases "fill_cells format_body_cell (add_row t) 0 r")
    case (Inl e)
    then show ?thesis by simp
  next
    case (Inr cells)
    have "r \<noteq> row"
    proof
      assume "r = row"
      with Cons.prems(2) have "fill_cells format_body_cell (add_row t) 0 r
              = Inl (case first_text_error (take (length (add_row t) - 0) r) of
                       Some e \<Rightarrow> e | None \<Rightarrow> IndexError)"
        by (intro fill_cells_overflow) (simp_all add: add_row_def)
      with Inr show False by simp
    qed
    with Cons.prems have "row \<in> set rows" by simp
    from Cons.IH [OF this, of "t\<lparr>tbl_rows := tbl_rows t @ [cells]\<rparr>"] Cons.prems(2) Inr
    show ?thesis by simp
  qed
qed

lemma add_rows_overflow:
  "row \<in> set rows \<Longrightarrow> tbl_grid t < length row \<Longrightarrow> list_all (list_all xml_compatible) rows \<Longrightarrow>
   add_rows t rows = Inl IndexError"
proof (induction rows arbitrary: t)
  case Nil
  then show ?case by simp
next
  case (Cons r rows)
  from Cons.prems(3) have r: "list_all xml_compatible r"
    and rs: "list_all (list_all xml_compatible) rows" by simp_all
  show ?case
  proof (cases "tbl_grid t < length r")
    case True
    have "list_all xml_compatible (take (tbl_grid t) r)"
      using r by (auto simp: list_all_iff dest: in_set_takeD)
    then have "first_text_error (take (tbl_grid t) r) = None"
      by (rule first_text_error_compatible)
    moreover have "fill_cells format_body_cell (add_row t) 0 r
              = Inl (case first_text_error (take (length (add_row t) - 0) r) of
                       Some e \<Rightarrow> e | None \<Rightarrow> IndexError)"
      using True by (intro fill_cells_overflow) (simp_all add: add_row_def)
    ultimately show ?thesis by (simp add: add_row_def)
  next
    case False
    then have fit: "length r \<le> tbl_grid t" by simp
    from False Cons.prems have "row \<in> set rows" by auto
    then show ?thesis
      using Cons.IH [of "t\<lparr>tbl_rows := tbl_rows t @
              [map (\<lambda>v. format_body_cell (written_cell v new_cell)) r
               @ replicate (tbl_grid t - length r) new_cell]\<rparr>"] Cons.prems(2) rs
      by (simp add: fill_new_row [OF fit r])
  qed
qed

text \<open>
  C3, as the code has it. A body row with more cells than the header row has columns is
  not truncated, and populating it always raises. The new row has one cell for each
  column. The cells are written from the left: when one of the first cells (as many as
  there are columns) holds a text that the library refuses, writing it raises that error;
  otherwise writing the first extra cell indexes the row's cells out of range and raises
  \<open>IndexError\<close>. In both cases the table is not built and the build of the document
  aborts; when the table style exists and the library accepts every cell text of the
  table, the error of the build is \<open>IndexError\<close>.
\<close>

theorem long_row_raises:
  assumes "row \<in> set rows" and "length hdr < length row"
  shows "(\<exists>e. create_table st (hdr # rows) doc = Inl e)
         \<and> fill_cells format_body_cell (add_row (add_table 1 (length hdr))) 0 row
             = Inl (case first_text_error (take (length hdr) row) of
                      Some e \<Rightarrow> e
                    | None \<Rightarrow> IndexError)
         \<and> (st (lit ''Table Grid'') = Some TABLE_STYLE \<and> list_all xml_compatible hdr
              \<and> list_all (list_all xml_compatible) rows \<longrightarrow>
            create_table st (hdr # rows) doc = Inl IndexError)"
proof (intro conjI impI)
  show "\<exists>e. create_table st (hdr # rows) doc = Inl e"
  proof (cases "set_table_style st (lit ''Table Grid'') (add_table 1 (length hdr))")
    case (Inl e)
    then show ?thesis by (simp add: create_table_def)
  next
    case (Inr t0)
    then have g0: "tbl_grid t0 = length hdr"
      by (auto simp: set_table_style_def add_table_def split: option.splits if_splits)
    let ?t1 = "t0\<lparr>tbl_rows := map (map set_font_size) (tbl_rows t0)\<rparr>"
    show ?thesis
    proof (cases "fill_cells format_header_cell (tbl_rows ?t1 ! 0) 0 hdr")
      case (Inl e)
      with Inr show ?thesis by (simp add: create_table_def Let_def)
    next
      case hdr_cells: (Inr hdr_cells)
      have "\<exists>e. add_rows (?t1\<lparr>tbl_rows := (tbl_rows ?t1)[0 := hdr_cells]\<rparr>) rows = Inl e"
        using assms g0 by (intro add_rows_raises [of row]) simp_all
      with Inr hdr_cells show ?thesis by (auto simp: create_table_def Let_def)
    qed
  qed
next
  show "fill_cells format_body_cell (add_row (add_table 1 (length hdr))) 0 row
          = Inl (case first_text_error (take (length hdr) row) of
                   Some e \<Rightarrow> e | None \<Rightarrow> IndexError)"
    using fill_cells_overflow [of 0 "add_row (add_table 1 (length hdr))" row format_body_cell]
      assms(2)
    by (simp add: add_row_def add_table_def)
next
  assume a: "st (lit ''Table Grid'') = Some TABLE_STYLE \<and> list_all xml_compatible hdr
              \<and> list_all (list_all xml_compatible) rows"
  have f: "set_font_size new_cell = new_cell"
    by (simp add: set_font_size_def new_cell_def)
  have h: "fill_cells format_header_cell (replicate (length hdr) new_cell) 0 hdr
             = Inr (map (\<lambda>v. format_header_cell (written_cell v new_cell)) hdr)"
    using fill_new_row [of hdr "add_table 1 (length hdr)" format_header_cell] a
    by (simp add: add_row_def add_table_def)
  have b: "add_rows t' rows = Inl IndexError" if "tbl_grid t' = length hdr" for t'
    using add_rows_overflow [OF assms(1), of t'] assms(2) that a by simp
  show "create_table st (hdr # rows) doc = Inl IndexError"
    unfolding create_table_def
    using a by (simp add: set_table_style_def add_table_def f h b Let_def)
qed

theorem long_row_raises_witness:
  "[lit ''1'', lit ''2'', lit ''3''] \<in> set [[lit ''1'', lit ''2'', lit ''3'']]
   \<and> length [lit ''A'', lit ''B''] < length [lit ''1'', lit ''2'', lit ''3'']
   \<and> create_table (map_of [(lit ''Table Grid'', TABLE_STYLE)])
        [[lit ''A'', lit ''B''], [lit ''1'', lit ''2'', lit ''3'']] [] = Inl IndexError
   \<and> fill_cells format_body_cell (add_row (add_table 1 (length [lit ''A'', lit ''B'']))) 0
        [[1], lit ''2'', lit ''3''] = Inl (ValueError msg_xml_compatible)"
proof -
  have c: "list_all xml_compatible [lit ''A'', lit ''B'']"
    "list_all (list_all xml_compatible) [[lit ''1'', lit ''2'', lit ''3'']]"
    by (simp_all add: xml_compatible_def lit_def is_break_def flush_error_def is_surrogate_def
        is_xml_char_def)
  have e: "first_text_error (take (length [lit ''A'', lit ''B'']) [[1], lit ''2'', lit ''3''])
             = Some (ValueError msg_xml_compatible)"
    by (simp add: is_break_def flush_error_def is_surrogate_def is_xml_char_def)
  from long_row_raises [of "[lit ''1'', lit ''2'', lit ''3'']" "[[lit ''1'', lit ''2'', lit ''3'']]"
      "[lit ''A'', lit ''B'']" "map_of [(lit ''Table Grid'', TABLE_STYLE)]" "[]"]
    long_row_raises [of "[[1], lit ''2'', lit ''3'']" "[[[1], lit ''2'', lit ''3'']]"
      "[lit ''A'', lit ''B'']" "map_of [(lit ''Table Grid'', TABLE_STYLE)]" "[]"] c e
  show ?thesis by simp
qed

text \<open>
  C3, the counterexample: a header of two columns and a body row of three cells. Populating
  the row raises, where the claim has the third cell dropped and no error.
\<close>

theorem long_row_counterexample:
  "fill_cells format_body_cell (add_row (add_table 1 2)) 0 [lit ''1'', lit ''2'', lit ''3'']
     = Inl IndexError"
  by (simp add: add_row_def add_table_def set_text_def lit_def is_break_def flush_error_def
      is_surrogate_def is_xml_char_def)

lemma body_cell_written:
  "format_body_cell (written_cell v new_cell) =
     \<lparr>paragraphs =
        [\<lparr>alignment = Some CENTER,
          runs = [\<lparr>run_text = run_text_of v, run_bold = False, run_size = Some 10\<rparr>]\<rparr>],
      tcPr = []\<rparr>"
  by (simp add: format_body_cell_def written_cell_def new_cell_def)

lemma header_cell_written:
  "format_header_cell (written_cell v new_cell) =
     \<lparr>paragraphs =
        [\<lparr>alignment = Some CENTER,
          runs = [\<lparr>run_text = run_text_of v, run_bold = True, run_size = Some 10\<rparr>]\<rparr>],
      tcPr = [lit ''<w:shd w:fill=\"5B9BD5\"/>'']\<rparr>"
  by (simp add: format_header_cell_def written_cell_def new_cell_def)

text \<open>
  The table of a header and one body row that is not longer: \<open>add_table\<close> gives the
  table as many grid columns as the header row has cells.
\<close>

lemma created_table_short_row:
  assumes "st (lit ''Table Grid'') = Some TABLE_STYLE" and "length row \<le> length hdr"
    and "list_all xml_compatible hdr" and "list_all xml_compatible row"
  shows "create_table st [hdr, row] doc =
           Inr (doc @ [TableNode
             \<lparr>tbl_style = Some (lit ''Table Grid''), tbl_grid = length hdr,
              tbl_rows =
                [map (\<lambda>v. format_header_cell (written_cell v new_cell)) hdr,
                 map (\<lambda>v. format_body_cell (written_cell v new_cell)) row
                 @ replicate (length hdr - length row) new_cell]\<rparr>])"
proof -
  let ?t = "add_table 1 (length hdr)"
  have f: "set_font_size new_cell = new_cell"
    by (simp add: set_font_size_def new_cell_def)
  have h: "fill_cells format_header_cell (replicate (length hdr) new_cell) 0 hdr
             = Inr (map (\<lambda>v. format_header_cell (written_cell v new_cell)) hdr)"
    using fill_new_row [of hdr ?t format_header_cell] assms(3)
    by (simp add: add_row_def add_table_def)
  have b: "fill_cells format_body_cell (replicate (length hdr) new_cell) 0 row
             = Inr (map (\<lambda>v. format_body_cell (written_cell v new_cell)) row
                    @ replicate (length hdr - length row) new_cell)"
    using fill_new_row [of row ?t format_body_cell] assms(2,4)
    by (simp add: add_row_def add_table_def)
  show ?thesis
    unfolding create_table_def
    by (simp add: assms(1) set_table_style_def add_table_def add_row_def f h b Let_def)
qed

text \<open>
  C8, as the code has it. A body row with fewer cells than the table has columns, all of
  whose cell texts the library accepts, is written positionally into the first cells of
  the new row: each of them holds one centred paragraph with one run of the text (a
  carriage return read back as a line feed) in size 10, not bold. The trailing cells
  stay new cells (one empty paragraph, no run, no properties), and no exception is
  raised: the row is appended to the table.
\<close>

theorem short_row_leaves_trailing_cells:
  assumes "length row < tbl_grid t" and "list_all xml_compatible row"
  shows "fill_cells format_body_cell (add_row t) 0 row =
           Inr (map (\<lambda>v. \<lparr>paragraphs =
                            [\<lparr>alignment = Some CENTER,
                              runs = [\<lparr>run_text = run_text_of v, run_bold = False,
                                       run_size = Some 10\<rparr>]\<rparr>],
                          tcPr = []\<rparr>) row
                @ replicate (tbl_grid t - length row)
                    \<lparr>paragraphs = [\<lparr>alignment = None, runs = []\<rparr>], tcPr = []\<rparr>)
         \<and> add_rows t [row] =
           Inr (t\<lparr>tbl_rows := tbl_rows t @
                  [map (\<lambda>v. \<lparr>paragraphs =
                                [\<lparr>alignment = Some CENTER,
                                  runs = [\<lparr>run_text = run_text_of v, run_bold = False,
                                           run_size = Some 10\<rparr>]\<rparr>],
                              tcPr = []\<rparr>) row
                   @ replicate (tbl_grid t - length row)
                       \<lparr>paragraphs = [\<lparr>alignment = None, runs = []\<rparr>], tcPr = []\<rparr>]\<rparr>)"
proof -
  from assms have "length row \<le> tbl_grid t" by simp
  from fill_new_row [OF this assms(2), of format_body_cell, unfolded body_cell_written,
      unfolded new_cell_def]
  show ?thesis by simp
qed

theorem short_row_leaves_trailing_cells_witness:
  "length [lit ''1'', lit ''a'' @ [13] @ lit ''b''] < tbl_grid (add_table 1 3)
   \<and> list_all xml_compatible [lit ''1'', lit ''a'' @ [13] @ lit ''b'']
   \<and> fill_cells format_body_cell (add_row (add_table 1 3)) 0 [lit ''1'', lit ''a'' @ [13] @ lit ''b''] =
       Inr [\<lparr>paragraphs =
               [\<lparr>alignment = Some CENTER,
                 runs = [\<lparr>run_text = lit ''1'', run_bold = False, run_size = Some 10\<rparr>]\<rparr>],
             tcPr = []\<rparr>,
            \<lparr>paragraphs =
               [\<lparr>alignment = Some CENTER,
                 runs = [\<lparr>run_text = lit ''a'' @ [10] @ lit ''b'', run_bold = False,
                          run_size = Some 10\<rparr>]\<rparr>],
             tcPr = []\<rparr>,
            \<lparr>paragraphs = [\<lparr>alignment = None, runs = []\<rparr>], tcPr = []\<rparr>]"
proof -
  have c: "list_all xml_compatible [lit ''1'', lit ''a'' @ [13] @ lit ''b'']"
    by (simp add: xml_compatible_def lit_def is_break_def flush_error_def is_surrogate_def
        is_xml_char_def)
  have g: "length [lit ''1'', lit ''a'' @ [13] @ lit ''b''] < tbl_grid (add_table 1 3)"
    by (simp add: add_table_def)
  from short_row_leaves_trailing_cells [OF g c] c g show ?thesis
    by (simp add: add_table_def run_text_of_def lit_def numeral_3_eq_3)
qed

text \<open>
  C8, the counterexample: a row of one cell under two columns, whose text is the control
  character U+0001. Writing the cell raises \<open>ValueError\<close>.
\<close>

theorem short_row_control_character_counterexample:
  "length [[1]] < tbl_grid (add_table 1 2)
   \<and> fill_cells format_body_cell (add_row (add_table 1 2)) 0 [[1]]
       = Inl (ValueError msg_xml_compatible)"
  by (simp add: add_row_def add_table_def set_text_def is_break_def flush_error_def
      is_surrogate_def is_xml_char_def)

text \<open>
  C9. When no row is extracted from the captured table text, the table branch appends no
  node and raises nothing: the iteration leaves the document as it was, with the index
  where the capture stopped.
\<close>

theorem empty_table_adds_no_node:
  assumes "prefix (lit ''<table>'') (strip (lines ! i))"
    and "capture lines (i + 1) [] = (table_content, i')"
    and "extract_table_data (join [10] table_content) = []"
  shows "step st lines i doc = Inr (i', doc)"
  using assms table_not_div [OF assms(1)]
  unfolding step_def Let_def create_table_def by simp

theorem empty_table_adds_no_node_witness:
  "prefix (lit ''<table>'') (strip ([lit ''<table></table>''] ! 0))
   \<and> capture [lit ''<table></table>''] (0 + 1) [] = ([], 1)
   \<and> extract_table_data (join [10] []) = []
   \<and> step (\<lambda>n. None) [lit ''<table></table>''] 0 [] = Inr (1, [])
   \<and> build_body (\<lambda>n. None) (lit ''<table></table>'') = Inr []"
  using empty_table_adds_no_node [of "[lit ''<table></table>'']" 0 "[]" 1 "\<lambda>n. None" "[]"]
  by (simp add: lit_def strip_def is_space_def capture.simps extract_table_data_def
      extract_header_def extract_body_def build_body_def build_loop.simps)

text \<open>
  C10. A line whose trimmed form starts with one of the five \<open>div\<close> openers and on which
  \<open>>(.*?)</div>\<close> has no match emits no block: the iteration changes neither the document
  nor the index, so the loop goes on at the next line with the same document. The fallback
  branch for untagged prose is not reached.
\<close>

theorem unmatched_div_emits_nothing:
  assumes "opener \<in> {lit ''<div class=\"title\"'', lit ''<div class=\"text\"'',
                       lit ''<div class=\"onetitle\"'', lit ''<div class=\"twotitle\"'',
                       lit ''<div class=\"threetitle\"''}"
    and "prefix opener (strip (lines ! i))"
    and "re_search False [lit ''>''] [lit ''</div>''] (strip (lines ! i)) = None"
    and "i < length lines"
  shows "step st lines i doc = Inr (i, doc) \<and>
         build_loop st lines i doc = build_loop st lines (i + 1) doc"
proof -
  from assms(1,2,3) have s: "step st lines i doc = Inr (i, doc)"
    unfolding step_def Let_def div_block_def by auto
  with assms(4) show ?thesis
    by (subst build_loop.simps) simp
qed

theorem unmatched_div_emits_nothing_witness:
  "prefix (lit ''<div class=\"title\"'') (strip ([lit ''  <div class=\"title\">abc''] ! 0))
   \<and> re_search False [lit ''>''] [lit ''</div>'']
        (strip ([lit ''  <div class=\"title\">abc''] ! 0)) = None
   \<and> step (map_of [(style_title, PARAGRAPH_STYLE), (style_text, PARAGRAPH_STYLE)])
        [lit ''  <div class=\"title\">abc''] 0 [] = Inr (0, [])"
  using unmatched_div_emits_nothing [of "lit ''<div class=\"title\"''"
      "[lit ''  <div class=\"title\">abc'']" 0
      "map_of [(style_title, PARAGRAPH_STYLE), (style_text, PARAGRAPH_STYLE)]" "[]"]
  by (simp add: lit_def strip_def is_space_def)

section \<open>Properties of the merger\<close>

lemma lit_eq_iff: "lit a = lit b \<longleftrightarrow> a = b"
  unfolding lit_def by (simp add: inj_map_eq_map inj_def)

lemma lit_Nil_iff: "lit s = [] \<longleftrightarrow> s = []"
  by (simp add: lit_def)

lemma node_at_update:
  "p \<noteq> [] \<Longrightarrow> node_at (AList.update p n fs) q = (if q = p then Some n else node_at fs q)"
  by (simp add: node_at_def update_conv')

lemma node_at_file_nonempty: "node_at fs p = Some (File d) \<Longrightarrow> p \<noteq> []"
  by (auto simp: node_at_def)

lemma write_existing_file:
  "node_at fs p = Some (File old) \<Longrightarrow> write_file p d fs = (Inr (), AList.update p (File d) fs)"
  by (simp add: write_file_def)

lemma parse_xml_file:
  "node_at fs p = Some (File (XmlFile root)) \<Longrightarrow> etree_parse p fs = (Inr root, fs)"
  by (simp add: etree_parse_def)

lemma read_existing_relationships:
  "node_at fs p = Some (File (XmlFile root)) \<Longrightarrow> read_relationships p fs = (Inr root, fs)"
  by (simp add: read_relationships_def seq_io_def bind_io_def os_path_exists_def parse_xml_file)

subsection \<open>The content-type manifest\<close>

lemma xpath_override_append:
  "xpath_override (append_child root (override_element partname content_type)) partname
     = xpath_override root partname @ [override_element partname content_type]"
  by (simp add: xpath_override_def append_child_def override_element_def get_attr_def)

lemma ensure_override_absent:
  assumes "node_at fs ct_path = Some (File (XmlFile root))"
    and "xpath_override root partname = []"
  shows "ensure_content_type_override ct_path partname content_type fs =
           (Inr (), AList.update ct_path
                      (File (XmlFile (append_child root (override_element partname content_type)))) fs)"
  using assms
  by (simp add: ensure_content_type_override_def bind_io_def parse_xml_file tree_write_def
      write_existing_file override_element_def set_attr_def lit_eq_iff Let_def)

lemma ensure_override_present:
  assumes "node_at fs ct_path = Some (File (XmlFile root))"
    and "xpath_override root partname \<noteq> []"
  shows "ensure_content_type_override ct_path partname content_type fs = (Inr (), fs)"
  using assms
  by (simp add: ensure_content_type_override_def bind_io_def parse_xml_file return_io_def)

text \<open>
  C5. On a manifest that parses and holds at most one \<open>Override\<close> entry for the part
  name (a manifest holds at most one for each part), two runs for the same part name and
  type leave exactly one entry for it. The second run changes nothing, and when the entry
  is already there the first run leaves the file system as it was.
\<close>

theorem override_twice:
  assumes "node_at fs ct_path = Some (File (XmlFile root))"
    and "length (xpath_override root partname) \<le> 1"
  shows "\<exists>root' fs'.
           ensure_content_type_override ct_path partname content_type fs = (Inr (), fs')
         \<and> ensure_content_type_override ct_path partname content_type fs' = (Inr (), fs')
         \<and> node_at fs' ct_path = Some (File (XmlFile root'))
         \<and> length (xpath_override root' partname) = 1
         \<and> (xpath_override root partname \<noteq> [] \<longrightarrow> fs' = fs \<and> root' = root)"
proof (cases "xpath_override root partname = []")
  case True
  let ?root = "append_child root (override_element partname content_type)"
  let ?fs = "AList.update ct_path (File (XmlFile ?root)) fs"
  have ne: "ct_path \<noteq> []" using assms(1) by (rule node_at_file_nonempty)
  have 1: "ensure_content_type_override ct_path partname content_type fs = (Inr (), ?fs)"
    using assms(1) True by (rule ensure_override_absent)
  have 2: "node_at ?fs ct_path = Some (File (XmlFile ?root))"
    using ne by (simp add: node_at_update)
  have 3: "xpath_override ?root partname \<noteq> []"
    by (simp add: xpath_override_append)
  have 4: "ensure_content_type_override ct_path partname content_type ?fs = (Inr (), ?fs)"
    using 2 3 by (rule ensure_override_present)
  have 5: "length (xpath_override ?root partname) = 1"
    using True by (simp add: xpath_override_append)
  from 1 2 4 5 True show ?thesis by blast
next
  case False
  have 1: "ensure_content_type_override ct_path partname content_type fs = (Inr (), fs)"
    using assms(1) False by (rule ensure_override_present)
  have "length (xpath_override root partname) = 1"
    using False assms(2) by (cases "xpath_override root partname") simp_all
  with 1 assms(1) show ?thesis by blast
qed

theorem override_twice_witness:
  "node_at [([lit ''[Content_Types].xml''], File (XmlFile example_manifest))]
       [lit ''[Content_Types].xml''] = Some (File (XmlFile example_manifest))
   \<and> length (xpath_override example_manifest (lit ''/word/styles.xml'')) \<le> 1
   \<and> (\<exists>root' fs'.
         ensure_content_type_override [lit ''[Content_Types].xml''] (lit ''/word/styles.xml'')
           (lit ''application/xml'')
           [([lit ''[Content_Types].xml''], File (XmlFile example_manifest))] = (Inr (), fs')
       \<and> ensure_content_type_override [lit ''[Content_Types].xml''] (lit ''/word/styles.xml'')
           (lit ''application/xml'') fs' = (Inr (), fs')
       \<and> node_at fs' [lit ''[Content_Types].xml''] = Some (File (XmlFile root'))
       \<and> length (xpath_override root' (lit ''/word/styles.xml'')) = 1)"
proof -
  have h: "node_at [([lit ''[Content_Types].xml''], File (XmlFile example_manifest))]
             [lit ''[Content_Types].xml''] = Some (File (XmlFile example_manifest))"
    by (simp add: node_at_def)
  have x: "length (xpath_override example_manifest (lit ''/word/styles.xml'')) \<le> 1"
    by (simp add: example_manifest_def xpath_override_def)
  from h x override_twice [OF h x] show ?thesis by blast
qed

subsection \<open>The relationship table\<close>

lemma next_num_spec:
  "n \<le> next_num ids n \<and> rId (next_num ids n) \<notin> set ids
   \<and> (\<forall>k. n \<le> k \<and> k < next_num ids n \<longrightarrow> rId k \<in> set ids)"
proof (induction ids n rule: next_num.induct)
  case (1 ids n)
  show ?case
  proof (cases "rId n \<in> set ids")
    case True
    then have eq: "next_num ids n = next_num ids (n + 1)"
      by (subst next_num.simps) simp
    from "1" True
    have ih: "n + 1 \<le> next_num ids (n + 1) \<and> rId (next_num ids (n + 1)) \<notin> set ids
              \<and> (\<forall>k. n + 1 \<le> k \<and> k < next_num ids (n + 1) \<longrightarrow> rId k \<in> set ids)"
      by blast
    have "rId k \<in> set ids" if "n \<le> k" and "k < next_num ids (n + 1)" for k
    proof (cases "k = n")
      case True
      with \<open>rId n \<in> set ids\<close> show ?thesis by simp
    next
      case False
      with that ih show ?thesis by simp
    qed
    with ih eq show ?thesis by simp
  next
    case False
    then have "next_num ids n = n" by (subst next_num.simps) simp
    with False show ?thesis by auto
  qed
qed

lemma ensure_relationship_result:
  assumes "node_at fs p = Some (File (XmlFile root))"
  shows "ensure_relationship p rel_type target fs =
           (Inr (), AList.update p (File (XmlFile (with_relationship root rel_type target))) fs)"
  using assms
  by (simp add: ensure_relationship_def bind_io_def read_existing_relationships tree_write_def
      write_existing_file relationship_element_def with_relationship_def set_attr_def lit_eq_iff
      Let_def)

lemma xpath_relationship_append:
  "xpath_relationship (append_child root (relationship_element rid ty tg)) ty' tg' =
     xpath_relationship root ty' tg' @
       (if ty = ty' \<and> tg = tg' then [relationship_element rid ty tg] else [])"
  by (simp add: xpath_relationship_def append_child_def relationship_element_def get_attr_def
      lit_eq_iff)

lemma with_relationship_has: "xpath_relationship (with_relationship root ty tg) ty tg \<noteq> []"
  by (simp add: with_relationship_def xpath_relationship_append)

lemma with_relationship_other:
  "(ty, tg) \<noteq> (ty', tg') \<Longrightarrow>
   xpath_relationship (with_relationship root ty tg) ty' tg' = xpath_relationship root ty' tg'"
  by (auto simp: with_relationship_def xpath_relationship_append)

lemma with_relationship_keeps:
  "xpath_relationship root ty' tg' \<noteq> [] \<Longrightarrow>
   xpath_relationship (with_relationship root ty tg) ty' tg' \<noteq> []"
  by (simp add: with_relationship_def xpath_relationship_append)

lemma targets_differ:
  "lit ''styles.xml'' \<noteq> lit ''numbering.xml''" "lit ''theme/theme1.xml'' \<noteq> lit ''numbering.xml''"
  by (simp_all add: lit_eq_iff)

lemma rel_types_differ:
  "REL_TYPE_THEME \<noteq> REL_TYPE_STYLES" "REL_TYPE_NUMBERING \<noteq> REL_TYPE_STYLES"
  "REL_TYPE_NUMBERING \<noteq> REL_TYPE_THEME"
  by (simp_all add: REL_TYPE_THEME_def REL_TYPE_STYLES_def REL_TYPE_NUMBERING_def lit_eq_iff)

lemma paths_differ: "numbering_path \<noteq> doc_rels_path" "doc_rels_path \<noteq> []"
  by (simp_all add: numbering_path_def doc_rels_path_def os_path_join_def path_of_def b_dir_def
      lit_def)

text \<open>
  C2. On a relationship table that parses and has no relationship of the given type and
  target, \<open>ensure_relationship\<close> appends one element and changes no other: the children
  are the old ones followed by the new relationship. Its identifier is \<open>rIdN\<close> for the
  number \<open>N\<close> the loop stops at; \<open>N\<close> is positive, \<open>rIdN\<close> is not among the existing
  identifiers, and every \<open>rIdk\<close> with \<open>1 \<le> k < N\<close> is: \<open>N\<close> is the lowest unused number.
\<close>

theorem new_relationship_lowest_unused:
  assumes "node_at fs p = Some (File (XmlFile root))"
    and "xpath_relationship root rel_type target = []"
    and "N = next_num (existing_ids_of root) 1"
  shows "ensure_relationship p rel_type target fs =
           (Inr (), AList.update p
              (File (XmlFile (Element (tag root) (attrib root)
                 (children root @ [relationship_element (rId N) rel_type target])))) fs)
         \<and> 1 \<le> N
         \<and> rId N \<notin> set (existing_ids_of root)
         \<and> (\<forall>k. 1 \<le> k \<and> k < N \<longrightarrow> rId k \<in> set (existing_ids_of root))"
  using ensure_relationship_result [OF assms(1), of rel_type target]
    next_num_spec [of 1 "existing_ids_of root"]
  by (simp add: assms(2,3) with_relationship_def append_child_def)

theorem new_relationship_lowest_unused_witness:
  "node_at [(doc_rels_path, File (XmlFile example_relationships_gap))] doc_rels_path
     = Some (File (XmlFile example_relationships_gap))
   \<and> xpath_relationship example_relationships_gap REL_TYPE_THEME (lit ''theme/theme1.xml'') = []
   \<and> existing_ids_of example_relationships_gap = [lit ''rId1'', lit ''rId2'', lit ''rId4'']
   \<and> 3 = next_num (existing_ids_of example_relationships_gap) 1
   \<and> ensure_relationship doc_rels_path REL_TYPE_THEME (lit ''theme/theme1.xml'')
        [(doc_rels_path, File (XmlFile example_relationships_gap))]
     = (Inr (),
        [(doc_rels_path,
          File (XmlFile (Element (tag example_relationships_gap) (attrib example_relationships_gap)
            (children example_relationships_gap
             @ [relationship_element (lit ''rId3'') REL_TYPE_THEME (lit ''theme/theme1.xml'')]))))])"
proof -
  have h: "node_at [(doc_rels_path, File (XmlFile example_relationships_gap))] doc_rels_path
             = Some (File (XmlFile example_relationships_gap))"
    using paths_differ(2) by (simp add: node_at_def)
  have x: "xpath_relationship example_relationships_gap REL_TYPE_THEME (lit ''theme/theme1.xml'') = []"
    using rel_types_differ
    by (simp add: example_relationships_gap_def xpath_relationship_def relationship_element_def
        get_attr_def lit_eq_iff)
  have ids: "existing_ids_of example_relationships_gap = [lit ''rId1'', lit ''rId2'', lit ''rId4'']"
    by (simp add: example_relationships_gap_def existing_ids_of_def relationship_element_def
        get_attr_def lit_eq_iff lit_Nil_iff)
  have n: "3 = next_num (existing_ids_of example_relationships_gap) 1"
    unfolding ids by (simp add: next_num.simps rId_def str_nat.simps lit_def)
  have r: "rId 3 = lit ''rId3''"
    by (simp add: rId_def str_nat.simps lit_def)
  from new_relationship_lowest_unused [OF h x n] h x ids n r show ?thesis by simp
qed

lemma repair_existing_table:
  assumes "node_at fs doc_rels_path = Some (File (XmlFile root))"
  shows "\<exists>root'.
           repair_relationships fs = (Inr (), AList.update doc_rels_path (File (XmlFile root')) fs)
         \<and> xpath_relationship root' REL_TYPE_STYLES (lit ''styles.xml'') \<noteq> []
         \<and> xpath_relationship root' REL_TYPE_THEME (lit ''theme/theme1.xml'') \<noteq> []
         \<and> (xpath_relationship root' REL_TYPE_NUMBERING (lit ''numbering.xml'') \<noteq> [] \<longleftrightarrow>
              os_path_exists fs numbering_path
              \<or> xpath_relationship root REL_TYPE_NUMBERING (lit ''numbering.xml'') \<noteq> [])"
proof -
  let ?r1 = "with_relationship root REL_TYPE_STYLES (lit ''styles.xml'')"
  let ?r2 = "with_relationship ?r1 REL_TYPE_THEME (lit ''theme/theme1.xml'')"
  let ?r3 = "with_relationship ?r2 REL_TYPE_NUMBERING (lit ''numbering.xml'')"
  let ?fs1 = "AList.update doc_rels_path (File (XmlFile ?r1)) fs"
  let ?fs2 = "AList.update doc_rels_path (File (XmlFile ?r2)) fs"
  let ?fs3 = "AList.update doc_rels_path (File (XmlFile ?r3)) fs"
  note ne = paths_differ(2)
  have s1: "ensure_relationship doc_rels_path REL_TYPE_STYLES (lit ''styles.xml'') fs = (Inr (), ?fs1)"
    using assms by (rule ensure_relationship_result)
  have n1: "node_at ?fs1 doc_rels_path = Some (File (XmlFile ?r1))"
    using ne by (simp add: node_at_update)
  have s2: "ensure_relationship doc_rels_path REL_TYPE_THEME (lit ''theme/theme1.xml'') ?fs1
              = (Inr (), ?fs2)"
    using ensure_relationship_result [OF n1] by simp
  have n2: "node_at ?fs2 doc_rels_path = Some (File (XmlFile ?r2))"
    using ne by (simp add: node_at_update)
  have s3: "ensure_relationship doc_rels_path REL_TYPE_NUMBERING (lit ''numbering.xml'') ?fs2
              = (Inr (), ?fs3)"
    using ensure_relationship_result [OF n2] by simp
  have ex: "os_path_exists ?fs2 numbering_path = os_path_exists fs numbering_path"
    using ne paths_differ(1) by (simp add: os_path_exists_def node_at_update)
  have run: "repair_relationships fs =
               (Inr (), if os_path_exists fs numbering_path then ?fs3 else ?fs2)"
    unfolding repair_relationships_def Let_def doc_rels_path_def [symmetric]
      numbering_path_def [symmetric]
    using s1 s2 s3 ex by (simp add: seq_io_def bind_io_def)
  have st2: "xpath_relationship ?r2 REL_TYPE_STYLES (lit ''styles.xml'') \<noteq> []"
    by (intro with_relationship_keeps with_relationship_has)
  have th2: "xpath_relationship ?r2 REL_TYPE_THEME (lit ''theme/theme1.xml'') \<noteq> []"
    by (rule with_relationship_has)
  have nu2: "xpath_relationship ?r2 REL_TYPE_NUMBERING (lit ''numbering.xml'')
               = xpath_relationship root REL_TYPE_NUMBERING (lit ''numbering.xml'')"
    using targets_differ by (simp add: with_relationship_other)
  show ?thesis
  proof (cases "os_path_exists fs numbering_path")
    case True
    have "xpath_relationship ?r3 REL_TYPE_STYLES (lit ''styles.xml'') \<noteq> []"
      using st2 by (rule with_relationship_keeps)
    moreover have "xpath_relationship ?r3 REL_TYPE_THEME (lit ''theme/theme1.xml'') \<noteq> []"
      using th2 by (rule with_relationship_keeps)
    moreover have "xpath_relationship ?r3 REL_TYPE_NUMBERING (lit ''numbering.xml'') \<noteq> []"
      by (rule with_relationship_has)
    ultimately show ?thesis using run True by auto
  next
    case False
    with run st2 th2 nu2 show ?thesis by auto
  qed
qed

lemma seq_io_assoc: "seq_io (seq_io a b) c = seq_io a (seq_io b c)"
  by (auto simp: seq_io_def bind_io_def fun_eq_iff split: prod.splits sum.splits)

lemma seq_io_Inr:
  "seq_io m n fs = (Inr x, fs') \<Longrightarrow> \<exists>y fs1. m fs = (Inr y, fs1) \<and> n fs1 = (Inr x, fs')"
  by (auto simp: seq_io_def bind_io_def split: prod.splits sum.splits)

lemma seq_io_unit:
  fixes m :: "unit io"
  shows "seq_io m n fs = (Inr x, fs') \<Longrightarrow> \<exists>fs1. m fs = (Inr (), fs1) \<and> n fs1 = (Inr x, fs')"
  by (auto simp: seq_io_def bind_io_def split: prod.splits sum.splits)

lemma seq_io_cong_first: "m fs = m' fs0 \<Longrightarrow> seq_io m n fs = seq_io m' n fs0"
  by (simp add: seq_io_def bind_io_def)

lemma merge_split:
  "copy_styles_and_dependencies_from_template ev tmp_template tmp_output =
     seq_io (merge_prefix ev)
       (seq_io repair_relationships
          (seq_io (zip_dir b_dir tmp_output)
             (seq_io (shutil_rmtree True t_dir) (shutil_rmtree True b_dir))))"
  by (simp add: copy_styles_and_dependencies_from_template_def merge_prefix_def seq_io_assoc)

lemma mkdir_each_keeps:
  "mkdir_each ps fs = (r, fs1) \<Longrightarrow> q \<notin> set ps \<Longrightarrow> node_at fs1 q = node_at fs q"
proof (induction ps arbitrary: fs)
  case Nil
  then show ?case by simp
next
  case (Cons p ps)
  show ?case
  proof (cases "node_at fs p")
    case None
    then have "p \<noteq> []" by (auto simp: node_at_def)
    with Cons None show ?thesis by (auto simp: node_at_update)
  next
    case (Some n)
    with Cons show ?thesis by (cases n) auto
  qed
qed

lemma os_makedirs_keeps:
  "os_makedirs ok d fs = (r, fs1) \<Longrightarrow> \<not> prefix q d \<Longrightarrow> node_at fs1 q = node_at fs q"
  by (auto simp: os_makedirs_def split: option.splits fnode.splits if_splits
      dest: mkdir_each_keeps)

lemma write_file_result:
  "write_file p d fs = (Inr (), fs1) \<Longrightarrow> fs1 = AList.update p (File d) fs"
  by (auto simp: write_file_def split: option.splits fnode.splits if_splits)

lemma read_relationships_result:
  assumes "read_relationships p fs = (Inr root, fs0)"
  shows "node_at fs0 p = Some (File (XmlFile root))"
    and "\<not> prefix q p \<Longrightarrow> node_at fs0 q = node_at fs q"
    and "os_path_exists fs p \<Longrightarrow> fs0 = fs"
    and "\<not> os_path_exists fs p \<Longrightarrow> root = Element (clark NS_REL (lit ''Relationships'')) [] []"
proof -
  let ?E = "Element (clark NS_REL (lit ''Relationships'')) [] []"
  have parse: "node_at f p = Some (File (XmlFile root)) \<and> fs0 = f"
    if "etree_parse p f = (Inr root, fs0)" for f
    using that by (auto simp: etree_parse_def split: option.splits fnode.splits fdata.splits)
  show "node_at fs0 p = Some (File (XmlFile root))"
    and "\<not> prefix q p \<Longrightarrow> node_at fs0 q = node_at fs q"
    and "os_path_exists fs p \<Longrightarrow> fs0 = fs"
    and "\<not> os_path_exists fs p \<Longrightarrow> root = ?E"
  proof -
    consider (there) "os_path_exists fs p" | (absent) "\<not> os_path_exists fs p" by blast
    then have "node_at fs0 p = Some (File (XmlFile root))
               \<and> (\<not> prefix q p \<longrightarrow> node_at fs0 q = node_at fs q)
               \<and> (os_path_exists fs p \<longrightarrow> fs0 = fs)
               \<and> (\<not> os_path_exists fs p \<longrightarrow> root = ?E)"
    proof cases
      case there
      with assms have "etree_parse p fs = (Inr root, fs0)"
        by (simp add: read_relationships_def seq_io_def bind_io_def)
      from parse [OF this] there show ?thesis by simp
    next
      case absent
      then have ne: "p \<noteq> []" by (auto simp: os_path_exists_def node_at_def)
      from assms absent obtain fs_a fs_b where
        a: "os_makedirs True (os_path_dirname p) fs = (Inr (), fs_a)"
        and b: "write_file p (XmlFile ?E) fs_a = (Inr (), fs_b)"
        and c: "etree_parse p fs_b = (Inr root, fs0)"
        by (auto simp: read_relationships_def seq_io_def bind_io_def tree_write_def
            split: prod.splits sum.splits)
      from write_file_result [OF b] have fb: "fs_b = AList.update p (File (XmlFile ?E)) fs_a" .
      from parse [OF c] have r: "node_at fs_b p = Some (File (XmlFile root))" and e: "fs0 = fs_b"
        by simp_all
      from r fb ne have root: "root = ?E" by (simp add: node_at_update)
      have keep: "node_at fs0 q = node_at fs q" if "\<not> prefix q p"
      proof -
        from that have "q \<noteq> p" by auto
        moreover from that have "\<not> prefix q (os_path_dirname p)"
          by (metis os_path_dirname_def prefix_order.trans prefixeq_butlast)
        ultimately show ?thesis
          using os_makedirs_keeps [OF a] fb e ne by (simp add: node_at_update)
      qed
      from r e root keep absent show ?thesis by simp
    qed
    then show "node_at fs0 p = Some (File (XmlFile root))"
      and "\<not> prefix q p \<Longrightarrow> node_at fs0 q = node_at fs q"
      and "os_path_exists fs p \<Longrightarrow> fs0 = fs"
      and "\<not> os_path_exists fs p \<Longrightarrow> root = ?E"
      by simp_all
  qed
qed

lemma ensure_relationship_after_read:
  assumes "read_relationships p fs = (Inr root, fs0)"
  shows "ensure_relationship p ty tg fs = ensure_relationship p ty tg fs0"
proof -
  have "read_relationships p fs0 = (Inr root, fs0)"
    using read_relationships_result(1) [OF assms] by (rule read_existing_relationships)
  with assms show ?thesis by (simp add: ensure_relationship_def bind_io_def)
qed

lemma ensure_relationship_read:
  "ensure_relationship p ty tg fs = (Inr (), fs1) \<Longrightarrow>
   \<exists>root fs0. read_relationships p fs = (Inr root, fs0)"
  by (auto simp: ensure_relationship_def bind_io_def split: prod.splits sum.splits)

lemma numbering_not_prefix: "\<not> prefix numbering_path doc_rels_path"
  by (simp add: numbering_path_def doc_rels_path_def os_path_join_def path_of_def b_dir_def
      lit_def)

lemma repair_result:
  assumes "repair_relationships fs = (Inr (), fs_r)"
  shows "\<exists>root'.
           node_at fs_r doc_rels_path = Some (File (XmlFile root'))
         \<and> xpath_relationship root' REL_TYPE_STYLES (lit ''styles.xml'') \<noteq> []
         \<and> xpath_relationship root' REL_TYPE_THEME (lit ''theme/theme1.xml'') \<noteq> []
         \<and> (xpath_relationship root' REL_TYPE_NUMBERING (lit ''numbering.xml'') \<noteq> [] \<longleftrightarrow>
              os_path_exists fs numbering_path
              \<or> table_has_relationship fs REL_TYPE_NUMBERING (lit ''numbering.xml''))"
proof -
  let ?rest = "seq_io (ensure_relationship doc_rels_path REL_TYPE_THEME (lit ''theme/theme1.xml''))
           (\<lambda>fs. if os_path_exists fs numbering_path
                 then ensure_relationship doc_rels_path REL_TYPE_NUMBERING (lit ''numbering.xml'') fs
                 else (Inr (), fs))"
  have unfold: "repair_relationships =
      seq_io (ensure_relationship doc_rels_path REL_TYPE_STYLES (lit ''styles.xml'')) ?rest"
    by (simp only: repair_relationships_def Let_def doc_rels_path_def numbering_path_def)
  from assms obtain fs1 where
    "ensure_relationship doc_rels_path REL_TYPE_STYLES (lit ''styles.xml'') fs = (Inr (), fs1)"
    unfolding unfold by (blast dest: seq_io_unit)
  then obtain root fs0 where read: "read_relationships doc_rels_path fs = (Inr root, fs0)"
    by (blast dest: ensure_relationship_read)
  note r = read_relationships_result [OF read]
  have same: "repair_relationships fs = repair_relationships fs0"
    unfolding unfold
    by (rule seq_io_cong_first) (rule ensure_relationship_after_read [OF read])
  from repair_existing_table [OF r(1)] obtain root' where
    run: "repair_relationships fs0
            = (Inr (), AList.update doc_rels_path (File (XmlFile root')) fs0)"
    and st: "xpath_relationship root' REL_TYPE_STYLES (lit ''styles.xml'') \<noteq> []"
    and th: "xpath_relationship root' REL_TYPE_THEME (lit ''theme/theme1.xml'') \<noteq> []"
    and nu: "xpath_relationship root' REL_TYPE_NUMBERING (lit ''numbering.xml'') \<noteq> [] \<longleftrightarrow>
               os_path_exists fs0 numbering_path
               \<or> xpath_relationship root REL_TYPE_NUMBERING (lit ''numbering.xml'') \<noteq> []"
    by blast
  from assms same run have "fs_r = AList.update doc_rels_path (File (XmlFile root')) fs0"
    by simp
  then have n: "node_at fs_r doc_rels_path = Some (File (XmlFile root'))"
    using paths_differ(2) by (simp add: node_at_update)
  have ex: "os_path_exists fs0 numbering_path = os_path_exists fs numbering_path"
    using r(2) [OF numbering_not_prefix] by (simp add: os_path_exists_def)
  have had: "xpath_relationship root REL_TYPE_NUMBERING (lit ''numbering.xml'') \<noteq> [] \<longleftrightarrow>
             table_has_relationship fs REL_TYPE_NUMBERING (lit ''numbering.xml'')"
  proof (cases "os_path_exists fs doc_rels_path")
    case True
    with r(1,3) show ?thesis by (simp add: table_has_relationship_def)
  next
    case False
    with r(4) have "root = Element (clark NS_REL (lit ''Relationships'')) [] []" by simp
    with False show ?thesis
      by (simp add: table_has_relationship_def os_path_exists_def xpath_relationship_def)
  qed
  from n st th nu ex had show ?thesis by blast
qed

lemma walk_files_member:
  "(p, File d) \<in> set fs \<Longrightarrow> strict_prefix input_dir p \<Longrightarrow>
   (join [47] (drop (length input_dir) p), d) \<in> set (walk_files input_dir fs)"
  by (force simp: walk_files_def)

lemma map_of_filter_prefix:
  "\<not> prefix d q \<Longrightarrow> map_of (filter (\<lambda>(q', n). \<not> prefix d q') fs) q = map_of fs q"
  by (induction fs) auto

lemma rmtree_keeps:
  "shutil_rmtree ig d fs = (r, fs1) \<Longrightarrow> \<not> prefix d q \<Longrightarrow> map_of fs1 q = map_of fs q"
  by (auto simp: shutil_rmtree_def map_of_filter_prefix split: if_splits)

lemma staged_paths_differ: "tmp_template \<noteq> tmp_output" "tmp_output \<noteq> tmp_template"
  "tmp_template \<noteq> []" "tmp_output \<noteq> []"
  by (simp_all add: tmp_template_def tmp_output_def lit_eq_iff)

lemma output_outside_directories: "\<not> prefix t_dir tmp_output" "\<not> prefix b_dir tmp_output"
  by (simp_all add: t_dir_def b_dir_def tmp_output_def lit_eq_iff)

lemma relationships_member_name:
  "strict_prefix b_dir doc_rels_path"
  "join [47] (drop (length b_dir) doc_rels_path) = lit ''word/_rels/document.xml.rels''"
  by (simp_all add: doc_rels_path_def os_path_join_def path_of_def b_dir_def lit_def)

text \<open>
  C7, as the code has it. Whenever the merge returns, the package it has written holds
  the relationship table that lines 144 to 148 leave: the table has a relationship to
  \<open>styles.xml\<close> and one to \<open>theme/theme1.xml\<close> in every case, and it has a relationship
  to \<open>numbering.xml\<close> exactly when \<open>word/numbering.xml\<close> exists in the blank working
  directory after the copy step (the state \<open>fs_c\<close> that lines 125 to 141 leave) or the
  table in that directory had the relationship already.
\<close>

theorem merged_relationships:
  assumes "copy_styles_and_dependencies_from_template ev tmp_template tmp_output fs = (Inr (), fs')"
  shows "\<exists>fs_c members root'.
           merge_prefix ev fs = (Inr (), fs_c)
         \<and> node_at fs' tmp_output = Some (File (ZipFile members))
         \<and> (lit ''word/_rels/document.xml.rels'', XmlFile root') \<in> set members
         \<and> xpath_relationship root' REL_TYPE_STYLES (lit ''styles.xml'') \<noteq> []
         \<and> xpath_relationship root' REL_TYPE_THEME (lit ''theme/theme1.xml'') \<noteq> []
         \<and> (xpath_relationship root' REL_TYPE_NUMBERING (lit ''numbering.xml'') \<noteq> [] \<longleftrightarrow>
              os_path_exists fs_c numbering_path
              \<or> table_has_relationship fs_c REL_TYPE_NUMBERING (lit ''numbering.xml''))"
proof -
  from assms [unfolded merge_split] obtain fs_c where
    pre: "merge_prefix ev fs = (Inr (), fs_c)"
    and s1: "seq_io repair_relationships
               (seq_io (zip_dir b_dir tmp_output)
                  (seq_io (shutil_rmtree True t_dir) (shutil_rmtree True b_dir))) fs_c
             = (Inr (), fs')"
    by (blast dest: seq_io_unit)
  from s1 obtain fs_r where
    rep: "repair_relationships fs_c = (Inr (), fs_r)"
    and s2: "seq_io (zip_dir b_dir tmp_output)
               (seq_io (shutil_rmtree True t_dir) (shutil_rmtree True b_dir)) fs_r
             = (Inr (), fs')"
    by (blast dest: seq_io_unit)
  from s2 obtain fs_z where
    zip: "zip_dir b_dir tmp_output fs_r = (Inr (), fs_z)"
    and s3: "seq_io (shutil_rmtree True t_dir) (shutil_rmtree True b_dir) fs_z = (Inr (), fs')"
    by (blast dest: seq_io_unit)
  from s3 obtain fs_t where
    rm1: "shutil_rmtree True t_dir fs_z = (Inr (), fs_t)"
    and rm2: "shutil_rmtree True b_dir fs_t = (Inr (), fs')"
    by (blast dest: seq_io_unit)
  from repair_result [OF rep] obtain root' where
    n: "node_at fs_r doc_rels_path = Some (File (XmlFile root'))"
    and st: "xpath_relationship root' REL_TYPE_STYLES (lit ''styles.xml'') \<noteq> []"
    and th: "xpath_relationship root' REL_TYPE_THEME (lit ''theme/theme1.xml'') \<noteq> []"
    and nu: "xpath_relationship root' REL_TYPE_NUMBERING (lit ''numbering.xml'') \<noteq> [] \<longleftrightarrow>
               os_path_exists fs_c numbering_path
               \<or> table_has_relationship fs_c REL_TYPE_NUMBERING (lit ''numbering.xml'')"
    by blast
  let ?members = "walk_files b_dir fs_r"
  from n have "map_of fs_r doc_rels_path = Some (File (XmlFile root'))"
    using paths_differ(2) by (simp add: node_at_def)
  then have "(doc_rels_path, File (XmlFile root')) \<in> set fs_r"
    by (rule map_of_SomeD)
  then have mem: "(lit ''word/_rels/document.xml.rels'', XmlFile root') \<in> set ?members"
    using walk_files_member [of doc_rels_path "XmlFile root'" fs_r b_dir]
      relationships_member_name by simp
  from zip have "fs_z = AList.update tmp_output (File (ZipFile ?members)) fs_r"
    unfolding zip_dir_def by (rule write_file_result)
  then have "map_of fs_z tmp_output = Some (File (ZipFile ?members))"
    by (simp add: update_conv')
  with rmtree_keeps [OF rm1 output_outside_directories(1)]
    rmtree_keeps [OF rm2 output_outside_directories(2)]
  have "node_at fs' tmp_output = Some (File (ZipFile ?members))"
    using staged_paths_differ(4) by (simp add: node_at_def)
  with pre mem st th nu show ?thesis by blast
qed

subsection \<open>What the merge leaves alone\<close>

lemma keeps_return: "keeps q (return_io x)"
  by (simp add: return_io_def)

lemma keeps_bind: "keeps q m \<Longrightarrow> (\<And>x. keeps q (f x)) \<Longrightarrow> keeps q (bind_io m f)"
proof
  fix fs
  assume m: "keeps q m" and f: "\<And>x. keeps q (f x)"
  show "node_at (snd (bind_io m f fs)) q = node_at fs q"
  proof (cases "m fs")
    case (Pair r fs1)
    with m have 1: "node_at fs1 q = node_at fs q" by (metis snd_conv)
    show ?thesis
    proof (cases r)
      case (Inl e)
      with Pair 1 show ?thesis by (simp add: bind_io_def)
    next
      case (Inr x)
      with Pair 1 f [of x] show ?thesis by (simp add: bind_io_def)
    qed
  qed
qed

lemma keeps_seq: "keeps q m \<Longrightarrow> keeps q n \<Longrightarrow> keeps q (seq_io m n)"
  unfolding seq_io_def by (rule keeps_bind)

lemma keeps_if:
  "keeps q m \<Longrightarrow> keeps q n \<Longrightarrow> keeps q (\<lambda>fs. if c fs then m fs else n fs)"
  by simp

lemma keeps_skip: "keeps q (\<lambda>fs. (r, fs))"
  by simp

lemma keeps_for_each: "(\<And>x. keeps q (f x)) \<Longrightarrow> keeps q (for_each f xs)"
proof (induction xs)
  case Nil
  show ?case by (simp add: return_io_def)
next
  case (Cons x xs)
  have "keeps q (seq_io (f x) (for_each f xs))"
    using Cons.prems Cons.IH [OF Cons.prems] by (rule keeps_seq)
  then show ?case by simp
qed

lemma keeps_write_file: "q \<noteq> p \<Longrightarrow> keeps q (write_file p d)"
  by (auto simp: write_file_def node_at_def update_conv' split: option.splits fnode.splits)

lemma keeps_os_makedirs: "\<not> prefix q d \<Longrightarrow> keeps q (os_makedirs ok d)"
  by (metis os_makedirs_keeps prod.collapse)

lemma keeps_rmtree: "\<not> prefix d q \<Longrightarrow> keeps q (shutil_rmtree ig d)"
  by (simp add: shutil_rmtree_def node_at_def map_of_filter_prefix)

lemma keeps_copy2: "\<not> prefix dst q \<Longrightarrow> keeps q (shutil_copy2 src dst)"
proof
  fix fs
  assume a: "\<not> prefix dst q"
  then have "q \<noteq> dst" "q \<noteq> dst @ [last src]" by auto
  then have "keeps q (write_file dst d)" "keeps q (write_file (dst @ [last src]) d)" for d
    using keeps_write_file [of q dst d] keeps_write_file [of q "dst @ [last src]" d]
    by blast+
  then show "node_at (snd (shutil_copy2 src dst fs)) q = node_at fs q"
    by (simp add: shutil_copy2_def split: option.splits fnode.splits)
qed

lemma keeps_etree_parse: "keeps q (etree_parse p)"
  by (simp add: etree_parse_def split: option.splits fnode.splits fdata.splits)

lemma keeps_zip_open: "keeps q (zip_open p)"
  by (simp add: zip_open_def split: option.splits fnode.splits fdata.splits)

text \<open>A path whose first component is not that of a directory is apart from it.\<close>

lemma apart:
  assumes "q \<noteq> []" and "dir \<noteq> []" and "hd q \<noteq> hd dir"
  shows "\<not> prefix q (dir @ xs)" and "\<not> prefix q (butlast (dir @ xs))"
    and "\<not> prefix (dir @ xs) q"
proof -
  from assms obtain a q' b d' where q: "q = a # q'" and d: "dir = b # d'" and ab: "a \<noteq> b"
    by (cases q; cases dir) auto
  show "\<not> prefix q (dir @ xs)" using q d ab by simp
  show "\<not> prefix q (butlast (dir @ xs))" using q d ab by (cases "d' @ xs") auto
  show "\<not> prefix (dir @ xs) q" using q d ab by simp
qed

lemma keeps_extract_member:
  assumes "q \<noteq> []" and "dir \<noteq> []" and "hd q \<noteq> hd dir"
  shows "keeps q (extract_member dir member)"
proof -
  let ?target = "dir @ filter (\<lambda>c. c \<noteq> [] \<and> c \<noteq> lit ''.'' \<and> c \<noteq> lit ''..'')
                         (split_on 47 (fst member))"
  have 1: "keeps q (os_makedirs False (os_path_dirname ?target))"
    unfolding os_path_dirname_def using apart(2) [OF assms] by (rule keeps_os_makedirs)
  have 2: "keeps q (os_makedirs False ?target)"
    using apart(1) [OF assms] by (rule keeps_os_makedirs)
  have 3: "keeps q (write_file ?target (snd member))"
    using apart(3) [OF assms] by (intro keeps_write_file) auto
  have a: "keeps q (\<lambda>fs. if os_path_dirname ?target \<noteq> [] \<and> \<not> os_path_exists fs (os_path_dirname ?target)
                 then os_makedirs False (os_path_dirname ?target) fs else (Inr (), fs))"
    using 1 by simp
  have b: "keeps q (if fst member \<noteq> [] \<and> last (fst member) = 47
            then (\<lambda>fs. if node_at fs ?target = Some Dir then (Inr (), fs)
                       else os_makedirs False ?target fs)
            else write_file ?target (snd member))"
    using 2 3 by simp
  show ?thesis
    unfolding extract_member_def Let_def using a b by (rule keeps_seq)
qed

lemma keeps_unzip_docx:
  assumes "q \<noteq> []" and "dir \<noteq> []" and "hd q \<noteq> hd dir"
  shows "keeps q (unzip_docx docx_path dir)"
proof -
  have n: "\<not> prefix dir q" "\<not> prefix q dir"
    using apart(1,3) [OF assms, of "[]"] by simp_all
  have 1: "keeps q (\<lambda>fs. if os_path_exists fs dir then shutil_rmtree False dir fs else (Inr (), fs))"
    using keeps_rmtree [OF n(1)] by simp
  have 2: "keeps q (os_makedirs False dir)"
    using n(2) by (rule keeps_os_makedirs)
  have 3: "keeps q (bind_io (zip_open docx_path) (for_each (extract_member dir)))"
    using keeps_zip_open
  proof (rule keeps_bind)
    fix members
    show "keeps q (for_each (extract_member dir) members)"
      by (rule keeps_for_each) (rule keeps_extract_member [OF assms])
  qed
  show ?thesis
    unfolding unzip_docx_def by (intro keeps_seq 1 2 3)
qed

lemma keeps_safe_copy:
  assumes "q \<noteq> []" and "dir \<noteq> []" and "hd q \<noteq> hd dir"
  shows "keeps q (safe_copy src_root dir rel_path)"
proof -
  let ?dst = "dir @ path_of rel_path"
  have 1: "keeps q (os_makedirs True (os_path_dirname ?dst))"
    unfolding os_path_dirname_def using apart(2) [OF assms] by (rule keeps_os_makedirs)
  have 2: "keeps q (shutil_copy2 src ?dst)" for src
    using apart(3) [OF assms] by (rule keeps_copy2)
  have "keeps q (seq_io (os_makedirs True (os_path_dirname ?dst))
                   (seq_io (shutil_copy2 src ?dst) (return_io True)))" for src
    by (intro keeps_seq 1 2 keeps_return)
  then show ?thesis
    by (simp add: safe_copy_def Let_def os_path_join_def return_io_def)
qed

lemma keeps_ensure_override:
  "q \<noteq> ct_path \<Longrightarrow> keeps q (ensure_content_type_override ct_path partname content_type)"
  unfolding ensure_content_type_override_def Let_def tree_write_def
  by (intro keeps_bind keeps_etree_parse) (simp add: keeps_write_file keeps_return)

lemma keeps_read_relationships:
  assumes "\<not> prefix q p"
  shows "keeps q (read_relationships p)"
proof -
  from assms have ne: "q \<noteq> p" by auto
  from assms have "\<not> prefix q (os_path_dirname p)"
    by (metis os_path_dirname_def prefix_order.trans prefixeq_butlast)
  then have "keeps q (seq_io (os_makedirs True (os_path_dirname p))
                        (tree_write p (Element (clark NS_REL (lit ''Relationships'')) [] [])))"
    unfolding tree_write_def by (intro keeps_seq keeps_os_makedirs keeps_write_file ne)
  then have "keeps q (\<lambda>fs. if \<not> os_path_exists fs p
             then seq_io (os_makedirs True (os_path_dirname p))
                    (tree_write p (Element (clark NS_REL (lit ''Relationships'')) [] [])) fs
             else (Inr (), fs))"
    by simp
  then show ?thesis
    unfolding read_relationships_def by (intro keeps_seq keeps_etree_parse)
qed

lemma keeps_ensure_relationship:
  assumes "\<not> prefix q p"
  shows "keeps q (ensure_relationship p rel_type target)"
proof -
  from assms have ne: "q \<noteq> p" by auto
  show ?thesis
    unfolding ensure_relationship_def Let_def tree_write_def
    by (intro keeps_bind keeps_read_relationships assms) (simp add: keeps_write_file ne)
qed

lemma keeps_merge:
  assumes "q \<noteq> []" and "hd q \<noteq> hd t_dir" and "hd q \<noteq> hd b_dir" and "q \<noteq> output_path"
  shows "keeps q (copy_styles_and_dependencies_from_template ev template_path output_path)"
proof -
  have t: "t_dir \<noteq> []" and b: "b_dir \<noteq> []" by (simp_all add: t_dir_def b_dir_def)
  note at = apart [OF assms(1) t assms(2)] and ab = apart [OF assms(1) b assms(3)]
  have under: "\<not> prefix q (os_path_join b_dir rel)" "q \<noteq> os_path_join b_dir rel" for rel
    using ab(1) [of "path_of rel"] by (auto simp: os_path_join_def)
  have 1: "keeps q (write_file output_path (ZipFile (blank_docx ev)))"
    using assms(4) by (rule keeps_write_file)
  have 2: "keeps q (unzip_docx template_path t_dir)"
    using assms(1) t assms(2) by (rule keeps_unzip_docx)
  have 3: "keeps q (unzip_docx output_path b_dir)"
    using assms(1) b assms(3) by (rule keeps_unzip_docx)
  have 4: "keeps q copy_parts"
    unfolding copy_parts_def
    by (intro keeps_for_each keeps_seq keeps_return keeps_safe_copy assms(1) b assms(3))
  have 5: "keeps q repair_content_types"
    unfolding repair_content_types_def Let_def
  proof (rule keeps_for_each)
    fix x :: "pystr \<times> pystr"
    obtain partname ctype where x: "x = (partname, ctype)" by (cases x)
    have "keeps q (ensure_content_type_override (os_path_join b_dir (lit ''[Content_Types].xml''))
                     partname ctype)"
      using under(2) by (rule keeps_ensure_override)
    then show "keeps q (case x of (partname, ctype) \<Rightarrow> \<lambda>fs.
              if os_path_exists fs (os_path_join b_dir (dropWhile (\<lambda>c. c = 47) partname))
              then ensure_content_type_override (os_path_join b_dir (lit ''[Content_Types].xml''))
                     partname ctype fs
              else (Inr (), fs))"
      by (simp add: x)
  qed
  have r: "keeps q (ensure_relationship (os_path_join b_dir rel) ty tg)" for rel ty tg
    using under(1) by (rule keeps_ensure_relationship)
  have 6: "keeps q repair_relationships"
  proof -
    have "keeps q (\<lambda>fs. if os_path_exists fs (os_path_join b_dir (lit ''word/numbering.xml''))
                 then ensure_relationship (os_path_join b_dir (lit ''word/_rels/document.xml.rels''))
                        REL_TYPE_NUMBERING (lit ''numbering.xml'') fs
                 else (Inr (), fs))"
      using r by simp
    then show ?thesis
      unfolding repair_relationships_def Let_def by (intro keeps_seq r)
  qed
  have 7: "keeps q (zip_dir b_dir output_path)"
    using keeps_write_file [OF assms(4)] by (simp add: zip_dir_def)
  have "\<not> prefix t_dir q" "\<not> prefix b_dir q"
    using at(3) [of "[]"] ab(3) [of "[]"] by simp_all
  then have 8: "keeps q (shutil_rmtree True t_dir)" "keeps q (shutil_rmtree True b_dir)"
    using keeps_rmtree [of t_dir q True] keeps_rmtree [of b_dir q True] by blast+
  show ?thesis
    unfolding copy_styles_and_dependencies_from_template_def
    by (intro keeps_seq 1 2 3 4 5 6 7 8)
qed

lemma merge_keeps_template:
  "copy_styles_and_dependencies_from_template ev tmp_template tmp_output fs = (r, fs') \<Longrightarrow>
   node_at fs' tmp_template = node_at fs tmp_template"
proof -
  have "keeps tmp_template (copy_styles_and_dependencies_from_template ev tmp_template tmp_output)"
    by (rule keeps_merge)
      (simp_all add: tmp_template_def tmp_output_def t_dir_def b_dir_def lit_eq_iff)
  then show "copy_styles_and_dependencies_from_template ev tmp_template tmp_output fs = (r, fs') \<Longrightarrow>
      node_at fs' tmp_template = node_at fs tmp_template"
    by (metis snd_conv)
qed

lemma cleanup_staged_files:
  assumes "map_of fs tmp_template = Some (File a)" and "map_of fs tmp_output = Some (File b)"
  shows "remove_staged_files fs
         = (Inr (), AList.delete tmp_output (AList.delete tmp_template fs))"
  unfolding remove_staged_files_def
  using assms staged_paths_differ
  by (simp add: seq_io_def bind_io_def os_path_exists_def node_at_def os_remove_def
      AList.delete_conv')

lemma staged_files_after_success:
  assumes "staged_document ev template_bytes markdown_content fs = (Inr d, fs1)"
  shows "node_at fs1 tmp_template = Some (File template_bytes)"
    and "node_at fs1 tmp_output = Some (File (ZipFile (docx_parts d)))"
proof -
  from assms obtain fs0 parts st where
    w: "write_file tmp_template template_bytes fs = (Inr (), fs0)"
    and c: "copy_styles_and_dependencies_from_template ev tmp_template tmp_output fs0 = (Inr (), fs1)"
    and o: "node_at fs1 tmp_output = Some (File (ZipFile parts))"
    and d: "docx_parts d = parts"
    by (auto simp: staged_document_def seq_io_def bind_io_def raise_io_def return_io_def
        open_document_def
        split: prod.splits sum.splits option.splits fnode.splits fdata.splits)
  from write_file_result [OF w] have "node_at fs0 tmp_template = Some (File template_bytes)"
    using staged_paths_differ by (simp add: node_at_update)
  with merge_keeps_template [OF c]
  show "node_at fs1 tmp_template = Some (File template_bytes)" by simp
  from o d show "node_at fs1 tmp_output = Some (File (ZipFile (docx_parts d)))" by simp
qed

lemma cleanup_after_success:
  assumes "staged_document ev template_bytes markdown_content fs = (Inr d, fs1)"
  shows "remove_staged_files fs1
           = (Inr (), AList.delete tmp_output (AList.delete tmp_template fs1))"
  using staged_files_after_success [OF assms] staged_paths_differ
  by (intro cleanup_staged_files) (simp_all add: node_at_def)

subsection \<open>The merger on the example packages\<close>

lemmas io_defs = return_io_def raise_io_def bind_io_def seq_io_def try_except_def try_finally_def
lemmas fs_defs = path_of_def os_path_join_def os_path_dirname_def node_at_def os_path_exists_def
  write_file_def os_makedirs_def shutil_rmtree_def os_remove_def shutil_copy2_def etree_parse_def
  tree_write_def zip_open_def extract_member_def unzip_docx_def walk_files_def zip_dir_def
lemmas merge_defs = safe_copy_def copy_parts_def repair_content_types_def repair_relationships_def
  copy_styles_and_dependencies_from_template_def PARTS_TO_COPY_def CONTENT_TYPES_def t_dir_def b_dir_def
  tmp_template_def tmp_output_def clark_def get_attr_def set_attr_def append_child_def
  xpath_override_def ensure_content_type_override_def read_relationships_def rId_def
  xpath_relationship_def existing_ids_of_def ensure_relationship_def
  NS_CT_def NS_REL_def REL_TYPE_NUMBERING_def REL_TYPE_STYLES_def REL_TYPE_THEME_def
lemmas example_defs = override_element_def relationship_element_def example_manifest_def
  example_relationships_def example_blank_def example_blank_numbering_def example_env_def
  example_template_def example_template_dir_def

lemma merged_example:
  "copy_styles_and_dependencies_from_template (example_env example_blank_numbering)
     tmp_template tmp_output [(tmp_template, File example_template)]
   = (Inr (), [(tmp_template, File example_template), (tmp_output, File (ZipFile example_merged))])"
  by (simp add: io_defs fs_defs merge_defs example_defs example_merged_def lit_def Let_def
      next_num.simps str_nat.simps)

lemma failed_merge_example:
  "copy_styles_and_dependencies_from_template (example_env example_blank)
     tmp_template tmp_output [(tmp_template, File example_template_dir)]
   = (Inl OSError, example_residue)"
  by (simp add: io_defs fs_defs merge_defs example_defs example_residue_def lit_def Let_def)

lemma merged_table:
  "map_of example_merged (lit ''word/_rels/document.xml.rels'')
     = Some (XmlFile (append_child
         (append_child example_relationships
            (relationship_element (lit ''rId2'') REL_TYPE_THEME (lit ''theme/theme1.xml'')))
         (relationship_element (lit ''rId3'') REL_TYPE_NUMBERING (lit ''numbering.xml''))))"
  by (simp add: example_merged_def lit_eq_iff)

theorem merged_relationships_witness:
  "copy_styles_and_dependencies_from_template (example_env example_blank_numbering)
     tmp_template tmp_output [(tmp_template, File example_template)]
   = (Inr (), [(tmp_template, File example_template), (tmp_output, File (ZipFile example_merged))])
   \<and> (\<exists>fs_c members root'.
         merge_prefix (example_env example_blank_numbering) [(tmp_template, File example_template)]
           = (Inr (), fs_c)
       \<and> node_at [(tmp_template, File example_template),
                   (tmp_output, File (ZipFile example_merged))] tmp_output
           = Some (File (ZipFile members))
       \<and> (lit ''word/_rels/document.xml.rels'', XmlFile root') \<in> set members
       \<and> xpath_relationship root' REL_TYPE_STYLES (lit ''styles.xml'') \<noteq> []
       \<and> xpath_relationship root' REL_TYPE_THEME (lit ''theme/theme1.xml'') \<noteq> []
       \<and> (xpath_relationship root' REL_TYPE_NUMBERING (lit ''numbering.xml'') \<noteq> [] \<longleftrightarrow>
            os_path_exists fs_c numbering_path
            \<or> table_has_relationship fs_c REL_TYPE_NUMBERING (lit ''numbering.xml'')))"
  using merged_relationships [OF merged_example] merged_example by simp

text \<open>
  C7, the counterexample: the template has no numbering part, the blank package has one
  of its own. The part is in the blank working directory after the copy step, so the merged
  package has a numbering relationship.
\<close>

theorem numbering_from_blank_counterexample:
  "lit ''word/numbering.xml'' \<notin> set (namelist example_template)
   \<and> copy_styles_and_dependencies_from_template
        (example_env example_blank_numbering) tmp_template tmp_output
        [(tmp_template, File example_template)]
     = (Inr (), [(tmp_template, File example_template),
                 (tmp_output, File (ZipFile example_merged))])
   \<and> package_has_relationship
        [(tmp_template, File example_template), (tmp_output, File (ZipFile example_merged))]
        tmp_output REL_TYPE_NUMBERING (lit ''numbering.xml'')"
proof -
  have a: "lit ''word/numbering.xml'' \<notin> set (namelist example_template)"
    by (simp add: namelist_def example_template_def lit_eq_iff)
  have c: "package_has_relationship
             [(tmp_template, File example_template), (tmp_output, File (ZipFile example_merged))]
             tmp_output REL_TYPE_NUMBERING (lit ''numbering.xml'')"
    using staged_paths_differ
    by (simp add: package_has_relationship_def node_at_def merged_table xpath_relationship_append)
  from a c show ?thesis by (simp add: merged_example)
qed

lemma generate_of_staged:
  "generate_docx_with_template ev template_bytes markdown_content fs =
     (case staged_document ev template_bytes markdown_content fs of
        (r, fs1) \<Rightarrow>
          (case remove_staged_files fs1 of
             (Inl e, fs') \<Rightarrow> (Inl e, fs')
           | (Inr u, fs') \<Rightarrow> (case r of Inl e \<Rightarrow> (Inr None, fs') | Inr d \<Rightarrow> (Inr (Some d), fs'))))"
  by (simp add: generate_docx_with_template_def try_finally_def try_except_def bind_io_def
      return_io_def split: prod.splits sum.splits)

lemma staged_merge_failure:
  assumes "write_file tmp_template template_bytes fs = (Inr (), fs1)"
    and "copy_styles_and_dependencies_from_template ev tmp_template tmp_output fs1 = (Inl e, fs2)"
  shows "staged_document ev template_bytes markdown_content fs = (Inl e, fs2)"
  using assms by (simp add: staged_document_def seq_io_def bind_io_def)

lemma staged_build:
  assumes "write_file tmp_template template_bytes fs = (Inr (), fs1)"
    and "copy_styles_and_dependencies_from_template ev tmp_template tmp_output fs1 = (Inr (), fs2)"
    and "open_document ev tmp_output fs2 = (Inr (parts, st), fs2)"
  shows "staged_document ev template_bytes markdown_content fs =
           (case build_body st markdown_content of
              Inl e \<Rightarrow> (Inl e, fs2)
            | Inr body \<Rightarrow> (Inr \<lparr>docx_parts = parts, docx_body = body\<rparr>, fs2))"
  using assms
  by (simp add: staged_document_def seq_io_def bind_io_def raise_io_def return_io_def
      split: sum.splits)

lemma staged_document_complete:
  "staged_document ev template_bytes markdown_content fs = (Inr d, fs1) \<Longrightarrow>
   \<exists>st. load_styles ev (docx_parts d) = Inr st \<and> build_body st markdown_content = Inr (docx_body d)"
  by (auto simp: staged_document_def seq_io_def bind_io_def raise_io_def return_io_def
      open_document_def
      split: prod.splits sum.splits option.splits fnode.splits fdata.splits)

lemma write_template_first:
  "write_file tmp_template template_bytes [] = (Inr (), [(tmp_template, File template_bytes)])"
  using staged_paths_differ
  by (simp add: write_file_def node_at_def os_path_dirname_def tmp_template_def)

lemma example_paths_differ:
  "t_dir \<noteq> tmp_template" "t_dir \<noteq> tmp_output" "b_dir \<noteq> tmp_template" "b_dir \<noteq> tmp_output"
  "t_dir \<noteq> []" "b_dir \<noteq> []" "t_dir \<noteq> b_dir"
  by (simp_all add: t_dir_def b_dir_def tmp_template_def tmp_output_def lit_eq_iff)

lemma residue_staged_files:
  "map_of example_residue tmp_template = Some (File example_template_dir)"
  "map_of example_residue tmp_output = Some (File (ZipFile example_blank))"
  using staged_paths_differ by (simp_all add: example_residue_def)

lemma generate_directory_template:
  "generate_docx_with_template (example_env example_blank) example_template_dir md []
     = (Inr None, AList.delete tmp_output (AList.delete tmp_template example_residue))"
  using staged_merge_failure [OF write_template_first failed_merge_example, of md]
    cleanup_staged_files [OF residue_staged_files]
  by (simp add: generate_of_staged)

lemma residue_directories:
  "os_path_exists example_residue t_dir" "os_path_exists example_residue b_dir"
  "os_path_exists (AList.delete tmp_output (AList.delete tmp_template example_residue)) t_dir"
  "os_path_exists (AList.delete tmp_output (AList.delete tmp_template example_residue)) b_dir"
proof -
  have t: "map_of example_residue t_dir = Some Dir"
    using example_paths_differ by (simp add: example_residue_def)
  have "b_dir \<noteq> t_dir @ p" for p
    by (simp add: t_dir_def b_dir_def lit_eq_iff)
  then have b: "map_of example_residue b_dir = Some Dir"
    using example_paths_differ by (simp add: example_residue_def)
  from t b example_paths_differ
  show "os_path_exists example_residue t_dir" "os_path_exists example_residue b_dir"
    "os_path_exists (AList.delete tmp_output (AList.delete tmp_template example_residue)) t_dir"
    "os_path_exists (AList.delete tmp_output (AList.delete tmp_template example_residue)) b_dir"
    by (simp_all add: os_path_exists_def node_at_def AList.delete_conv')
qed

text \<open>
  C4, the failing input. \<open>word/styles.xml\<close> is a directory in the template, so copying it
  raises after both archives were extracted: the merge call ends with the exception and
  both working directories on disk, and they are still there when
  \<open>generate_docx_with_template\<close> has returned, whose cleanup removes the two staged files
  only.
\<close>

theorem working_directories_left_behind:
  "copy_styles_and_dependencies_from_template (example_env example_blank)
     tmp_template tmp_output [(tmp_template, File example_template_dir)]
     = (Inl OSError, example_residue)
   \<and> os_path_exists example_residue t_dir
   \<and> os_path_exists example_residue b_dir
   \<and> generate_docx_with_template (example_env example_blank) example_template_dir [] []
     = (Inr None, AList.delete tmp_output (AList.delete tmp_template example_residue))
   \<and> os_path_exists (AList.delete tmp_output (AList.delete tmp_template example_residue)) t_dir
   \<and> os_path_exists (AList.delete tmp_output (AList.delete tmp_template example_residue)) b_dir"
  by (simp add: failed_merge_example generate_directory_template residue_directories)

section \<open>Properties of the invocation\<close>

text \<open>
  C6. When the template bytes are no ZIP archive, or are one without \<open>[Content_Types].xml\<close>
  or without \<open>word/document.xml\<close>, the invocation yields one text message, which carries
  a \<open>ValueError\<close>, and no blob message; no exception escapes, and the file system is as
  it was: neither the merge nor the build has started.
\<close>

theorem rejected_template:
  assumes "param_model params
             \<in> {WithBlob template_bytes, WithRead template_bytes, RawBytes template_bytes}"
    and "(\<forall>members. template_bytes \<noteq> ZipFile members)
         \<or> (\<exists>members. template_bytes = ZipFile members
               \<and> \<not> (lit ''[Content_Types].xml'' \<in> fst ` set members
                     \<and> lit ''word/document.xml'' \<in> fst ` set members))"
  shows "\<exists>msg. invoke ev params fs = (Inr [TextMessage (ValueError msg)], fs)"
proof -
  from assms(2) obtain msg where c: "check_template template_bytes = Inl (ValueError msg)"
    by (cases template_bytes) (auto simp: check_template_def required_files_def)
  from assms(1) have "invoke ev params fs = (Inr [TextMessage (ValueError msg)], fs)"
    by (auto simp: invoke_def Let_def try_except_def bind_io_def seq_io_def return_io_def c)
  then show ?thesis by blast
qed

theorem rejected_template_witness:
  "param_model (example_parameters (Bytes [80, 75]) (lit ''text''))
     \<in> {WithBlob (Bytes [80, 75]), WithRead (Bytes [80, 75]), RawBytes (Bytes [80, 75])}
   \<and> (\<forall>members. Bytes [80, 75] \<noteq> ZipFile members)
   \<and> (\<exists>msg. invoke (example_env example_blank)
               (example_parameters (Bytes [80, 75]) (lit ''text'')) []
             = (Inr [TextMessage (ValueError msg)], []))
   \<and> lit ''word/document.xml'' \<notin> fst ` set [(lit ''[Content_Types].xml'', Bytes [4])]
   \<and> (\<exists>msg. invoke (example_env example_blank)
               (example_parameters (ZipFile [(lit ''[Content_Types].xml'', Bytes [4])])
                  (lit ''text'')) []
             = (Inr [TextMessage (ValueError msg)], []))"
proof -
  have h1: "param_model (example_parameters (Bytes [80, 75]) (lit ''text''))
              \<in> {WithBlob (Bytes [80, 75]), WithRead (Bytes [80, 75]), RawBytes (Bytes [80, 75])}"
    by (simp add: example_parameters_def)
  have h2: "\<forall>members. Bytes [80, 75] \<noteq> ZipFile members"
    by simp
  let ?z = "ZipFile [(lit ''[Content_Types].xml'', Bytes [4])]"
  have h3: "param_model (example_parameters ?z (lit ''text''))
              \<in> {WithBlob ?z, WithRead ?z, RawBytes ?z}"
    by (simp add: example_parameters_def)
  have h4: "lit ''word/document.xml'' \<notin> fst ` set [(lit ''[Content_Types].xml'', Bytes [4])]"
    by (simp add: lit_eq_iff)
  then have h5: "\<exists>members. ?z = ZipFile members
                   \<and> \<not> (lit ''[Content_Types].xml'' \<in> fst ` set members
                         \<and> lit ''word/document.xml'' \<in> fst ` set members)"
    by simp
  from h1 h2 h4 rejected_template [OF h1 disjI1 [OF h2]] rejected_template [OF h3 disjI2 [OF h5]]
  show ?thesis by blast
qed

lemma long_row_build: "build_body example_styles example_long_row = Inl IndexError"
  by (simp add: build_body_def example_long_row_def example_styles_def lit_def
      style_title_def style_text_def build_loop.simps step_def strip_def is_space_def capture.simps extract_table_data_def
      extract_header_def extract_body_def extract_row_def re_findall_def create_table_def
      set_table_style_def add_table_def add_row_def Let_def set_text_def flush_error_def
      is_break_def is_surrogate_def is_xml_char_def)

lemma plain_line_build:
  "build_body example_styles (lit ''hello'')
     = Inr [Paragraph style_text (lit ''hello'')]"
  by (simp add: build_body_def example_styles_def lit_def
      style_title_def style_text_def build_loop.simps step_def strip_def is_space_def
      Let_def add_styled_paragraph_def flush_error_def run_text_of_def
      is_break_def is_surrogate_def is_xml_char_def)

lemma merged_staged_files:
  "map_of [(tmp_template, File example_template), (tmp_output, File (ZipFile example_merged))]
     tmp_template = Some (File example_template)"
  "map_of [(tmp_template, File example_template), (tmp_output, File (ZipFile example_merged))]
     tmp_output = Some (File (ZipFile example_merged))"
  using staged_paths_differ by simp_all

lemma open_merged_example:
  "open_document (example_env example_blank_numbering) tmp_output
     [(tmp_template, File example_template), (tmp_output, File (ZipFile example_merged))]
   = (Inr (example_merged, example_styles),
      [(tmp_template, File example_template), (tmp_output, File (ZipFile example_merged))])"
  using staged_paths_differ by (simp add: open_document_def node_at_def example_env_def)

lemma staged_example:
  "staged_document (example_env example_blank_numbering) example_template md [] =
     (case build_body example_styles md of
        Inl e \<Rightarrow> (Inl e, [(tmp_template, File example_template),
                          (tmp_output, File (ZipFile example_merged))])
      | Inr body \<Rightarrow> (Inr \<lparr>docx_parts = example_merged, docx_body = body\<rparr>,
                     [(tmp_template, File example_template),
                      (tmp_output, File (ZipFile example_merged))]))"
  using write_template_first merged_example open_merged_example by (rule staged_build)

lemma cleanup_example:
  "remove_staged_files
     [(tmp_template, File example_template), (tmp_output, File (ZipFile example_merged))]
   = (Inr (), [])"
  using cleanup_staged_files [OF merged_staged_files] staged_paths_differ by simp

lemma check_example_template: "check_template example_template = Inr ()"
  by (simp add: check_template_def example_template_def required_files_def lit_eq_iff)

lemma default_filename_docx: "suffix (lit ''.docx'') (lower default_filename)"
  by (simp add: default_filename_def lower_def lit_def suffix_def)

lemma example_output_filename:
  "output_filename (example_parameters template_bytes markdown_content) = default_filename"
  by (simp add: output_filename_def example_parameters_def Let_def default_filename_docx)

text \<open>
  C1. The template is given as bytes (through a \<open>blob\<close> attribute, a \<open>read\<close> method or
  directly). In every case the invocation yields exactly one message and no exception
  escapes it. When the validation raises, the message is the text message of that
  exception and the file system is untouched. When the \<open>try\<close> block of
  \<open>generate_docx_with_template\<close> (staging, merge, loading, build) raises, the message is
  a text message: of the exception that the removal of the staged files raises, or else
  of the \<open>ValidationError\<close> with which the host refuses the blob \<open>None\<close>; no blob message
  is yielded. When the \<open>try\<close> block returns a document, the message is the blob message
  of that document under the output file name, and the two staged files are removed;
  the body of the document is the result of a build that ran to the end of the input,
  with the styles of the merged package.
\<close>

theorem one_message_per_invocation:
  assumes "param_model params
             \<in> {WithBlob template_bytes, WithRead template_bytes, RawBytes template_bytes}"
  shows "(\<exists>m fs'. invoke ev params fs = (Inr [m], fs'))
       \<and> (check_template template_bytes = Inl e \<longrightarrow>
            invoke ev params fs = (Inr [TextMessage e], fs))
       \<and> (check_template template_bytes = Inr ()
            \<and> staged_document ev template_bytes (param_query params) fs = (Inl e, fs1) \<longrightarrow>
            invoke ev params fs =
              (case remove_staged_files fs1 of
                 (Inl e', fs') \<Rightarrow> (Inr [TextMessage e'], fs')
               | (Inr u, fs') \<Rightarrow> (Inr [TextMessage ValidationError], fs')))
       \<and> (check_template template_bytes = Inr ()
            \<and> staged_document ev template_bytes (param_query params) fs = (Inr d, fs1) \<longrightarrow>
            (\<exists>st. load_styles ev (docx_parts d) = Inr st
                  \<and> build_body st (param_query params) = Inr (docx_body d))
            \<and> invoke ev params fs =
                (Inr [BlobMessage d (output_filename params)],
                 AList.delete tmp_output (AList.delete tmp_template fs1)))"
proof -
  let ?md = "param_query params"
  let ?gen = "generate_docx_with_template ev template_bytes ?md"
  have inv: "invoke ev params fs =
      (case check_template template_bytes of
         Inl e \<Rightarrow> (Inr [TextMessage e], fs)
       | Inr u \<Rightarrow>
           (case ?gen fs of
              (Inl e, fs') \<Rightarrow> (Inr [TextMessage e], fs')
            | (Inr None, fs') \<Rightarrow> (Inr [TextMessage ValidationError], fs')
            | (Inr (Some d), fs') \<Rightarrow> (Inr [BlobMessage d (output_filename params)], fs')))"
    using assms
    by (auto simp: invoke_def Let_def try_except_def bind_io_def seq_io_def return_io_def
        create_blob_message_def split: sum.splits prod.splits option.splits)
  have one: "\<exists>m fs'. invoke ev params fs = (Inr [m], fs')"
    unfolding inv by (auto split: sum.splits prod.splits option.splits)
  have val: "check_template template_bytes = Inl e \<longrightarrow>
               invoke ev params fs = (Inr [TextMessage e], fs)"
    unfolding inv by simp
  have fail: "check_template template_bytes = Inr ()
            \<and> staged_document ev template_bytes ?md fs = (Inl e, fs1) \<longrightarrow>
            invoke ev params fs =
              (case remove_staged_files fs1 of
                 (Inl e', fs') \<Rightarrow> (Inr [TextMessage e'], fs')
               | (Inr u, fs') \<Rightarrow> (Inr [TextMessage ValidationError], fs'))"
    unfolding inv by (auto simp: generate_of_staged split: sum.splits prod.splits)
  have ok: "check_template template_bytes = Inr ()
            \<and> staged_document ev template_bytes ?md fs = (Inr d, fs1) \<longrightarrow>
            (\<exists>st. load_styles ev (docx_parts d) = Inr st \<and> build_body st ?md = Inr (docx_body d))
            \<and> invoke ev params fs =
                (Inr [BlobMessage d (output_filename params)],
                 AList.delete tmp_output (AList.delete tmp_template fs1))"
    unfolding inv
    by (auto simp: generate_of_staged staged_document_complete cleanup_after_success)
  from one val fail ok show ?thesis by blast
qed

theorem one_message_per_invocation_witness:
  "param_model (example_parameters example_template example_long_row)
     \<in> {WithBlob example_template, WithRead example_template, RawBytes example_template}
   \<and> check_template example_template = Inr ()
   \<and> staged_document (example_env example_blank_numbering) example_template example_long_row []
       = (Inl IndexError, [(tmp_template, File example_template),
                           (tmp_output, File (ZipFile example_merged))])
   \<and> invoke (example_env example_blank_numbering)
        (example_parameters example_template example_long_row) []
       = (Inr [TextMessage ValidationError], [])
   \<and> staged_document (example_env example_blank_numbering) example_template (lit ''hello'') []
       = (Inr \<lparr>docx_parts = example_merged,
               docx_body = [Paragraph style_text (lit ''hello'')]\<rparr>,
          [(tmp_template, File example_template), (tmp_output, File (ZipFile example_merged))])
   \<and> invoke (example_env example_blank_numbering)
        (example_parameters example_template (lit ''hello'')) []
       = (Inr [BlobMessage \<lparr>docx_parts = example_merged,
                            docx_body = [Paragraph style_text (lit ''hello'')]\<rparr>
                 default_filename], [])
   \<and> invoke (example_env example_blank) (example_parameters (Bytes [80, 75]) (lit ''hello'')) []
       = (Inr [TextMessage (ValueError msg_not_zip)], [])"
proof -
  let ?ev = "example_env example_blank_numbering"
  let ?fs2 = "[(tmp_template, File example_template), (tmp_output, File (ZipFile example_merged))]"
  have p: "param_model (example_parameters example_template md)
             \<in> {WithBlob example_template, WithRead example_template, RawBytes example_template}"
    for md by (simp add: example_parameters_def)
  have q: "param_query (example_parameters tb md) = md" for tb md
    by (simp add: example_parameters_def)
  have s1: "staged_document ?ev example_template example_long_row [] = (Inl IndexError, ?fs2)"
    by (simp add: staged_example long_row_build)
  have s2: "staged_document ?ev example_template (lit ''hello'') []
              = (Inr \<lparr>docx_parts = example_merged,
                      docx_body = [Paragraph style_text (lit ''hello'')]\<rparr>, ?fs2)"
    by (simp add: staged_example plain_line_build)
  have i1: "invoke ?ev (example_parameters example_template example_long_row) []
              = (Inr [TextMessage ValidationError], [])"
    using one_message_per_invocation [OF p, where ev = ?ev and fs = "[]" and e = IndexError
        and ?fs1.0 = ?fs2]
    by (simp add: q s1 check_example_template cleanup_example)
  have i2: "invoke ?ev (example_parameters example_template (lit ''hello'')) []
              = (Inr [BlobMessage \<lparr>docx_parts = example_merged,
                                   docx_body = [Paragraph style_text (lit ''hello'')]\<rparr>
                        default_filename], [])"
    using one_message_per_invocation [OF p, where ev = ?ev and fs = "[]" and ?fs1.0 = ?fs2
        and d = "\<lparr>docx_parts = example_merged, docx_body = [Paragraph style_text (lit ''hello'')]\<rparr>"]
    using staged_paths_differ
    by (simp add: q s2 check_example_template example_output_filename)
  have p3: "param_model (example_parameters (Bytes [80, 75]) (lit ''hello''))
             \<in> {WithBlob (Bytes [80, 75]), WithRead (Bytes [80, 75]), RawBytes (Bytes [80, 75])}"
    by (simp add: example_parameters_def)
  have i3: "invoke (example_env example_blank) (example_parameters (Bytes [80, 75]) (lit ''hello'')) []
              = (Inr [TextMessage (ValueError msg_not_zip)], [])"
    using one_message_per_invocation [OF p3, where ev = "example_env example_blank"
        and fs = "[]" and e = "ValueError msg_not_zip"]
    by (simp add: check_template_def)
  from p [of example_long_row] check_example_template s1 i1 s2 i2 i3 show ?thesis by blast
qed

end
